theory Spec2Isabelle
  imports Complex_Main "HOL-Library.Word"
begin

section \<open>Scalars, groups and messages\<close>

text \<open>
  \<^verbatim>\<open>Scalar\<close> is the floating-point type of the code base. It is modelled by the real
  numbers: every theorem below is about the arithmetic the code writes down, evaluated
  exactly, and says nothing about rounding.
\<close>

type_synonym Scalar = real

text \<open>A timestep is an \<^verbatim>\<open>unsigned int\<close>; \<^verbatim>\<open>timestep+1\<close> wraps around.\<close>

type_synonym timestep = "32 word"

text \<open>
  A \<^verbatim>\<open>ParticleGroup\<close> is the list of its member particles, without duplicates; the
  order is the order of iteration.
\<close>

type_synonym ParticleGroup = "nat list"

text \<open>
  Modelled from the spec: \<^verbatim>\<open>ParticleGroup::getNumMembersGlobal\<close> (ParticleGroup.h/.cc are
  not among the sources), the number of members of the group over all ranks.
\<close>

definition getNumMembersGlobal :: "ParticleGroup \<Rightarrow> nat" where
  "getNumMembersGlobal g = length g"

text \<open>
  Modelled from the spec: \<^verbatim>\<open>ParticleGroup::groupIntersection\<close> (ParticleGroup.h/.cc are
  not among the sources). The data model says that a group is a set of particle indices
  that supports intersection; the intersection keeps the members of the first group that
  are also members of the second.
\<close>

definition groupIntersection :: "ParticleGroup \<Rightarrow> ParticleGroup \<Rightarrow> ParticleGroup" where
  "groupIntersection a b = filter (\<lambda>p. p \<in> set b) a"

datatype error = RuntimeError string | AssertionFailure

text \<open>
  Calls that leave the scheduler (messages of the execution configuration, the profiler,
  the methods' virtual step functions, the communicator, the force computes, the
  half-step hook) are recorded in order of execution. A method is named by its position in
  \<^verbatim>\<open>m_methods\<close>, a composite force by its position in \<^verbatim>\<open>m_composite_forces\<close>.
\<close>

datatype event =
    MsgWarning string
  | MsgError string
  | ProfPush string
  | ProfPop
  | SetDeltaT nat Scalar
  | SetAnisotropic nat bool
  | IntegrateStepOne nat timestep
  | IntegrateStepTwo nat timestep
  | ForceMigrate
  | Communicate timestep
  | UpdateCompositeParticles nat timestep
  | ComputeNetForce timestep
  | ComputeNetForceGPU timestep
  | ComputeAccelerations timestep
  | NotifyAccelSet
  | HalfStepHookUpdate timestep

section \<open>IntegratorTwoStep: the scheduler\<close>

text \<open>
  The base class of all integration methods, as far as the scheduler uses it. The virtual
  functions \<^verbatim>\<open>isMomentumConserving\<close>, \<^verbatim>\<open>getTranslationalDOF\<close> and
  \<^verbatim>\<open>getRotationalDOF\<close> of a method are fields: the scheduler only calls them.
\<close>

record IntegrationMethodTwoStep =
  m_group :: ParticleGroup
  m_deltaT :: Scalar
  m_aniso :: bool
  isMomentumConserving :: bool
  method_getTranslationalDOF :: "ParticleGroup \<Rightarrow> Scalar"
  method_getRotationalDOF :: "ParticleGroup \<Rightarrow> Scalar"

datatype AnisotropicMode = Automatic | Anisotropic | Isotropic

text \<open>
  The scheduler with what it reads of its base class \<^verbatim>\<open>Integrator\<close> and of the system:
  \<^verbatim>\<open>integrator_deltaT\<close> is \<^verbatim>\<open>Integrator::m_deltaT\<close>, \<^verbatim>\<open>m_comm\<close> says that the build has MPI
  and a communicator is set, \<^verbatim>\<open>isCUDAEnabled\<close> that the build has HIP and the execution
  configuration runs on the GPU, \<^verbatim>\<open>m_half_step_hook\<close> and \<^verbatim>\<open>m_prof\<close> that the hook and the
  profiler are set, \<^verbatim>\<open>getAnisotropic\<close> is the result of \<^verbatim>\<open>Integrator::getAnisotropic()\<close>,
  \<^verbatim>\<open>getNGlobal\<close> of \<^verbatim>\<open>m_pdata->getNGlobal()\<close>, \<^verbatim>\<open>getNDimensions\<close> of
  \<^verbatim>\<open>m_sysdef->getNDimensions()\<close>, \<^verbatim>\<open>isAccelSet\<close> of \<^verbatim>\<open>m_pdata->isAccelSet()\<close>, and
  \<^verbatim>\<open>getNDOFRemoved\<close> is the function of the base class.
\<close>

record IntegratorTwoStep =
  m_methods :: "IntegrationMethodTwoStep list"
  m_composite_forces :: "nat list"
  integrator_deltaT :: Scalar
  m_prepared :: bool
  m_gave_warning :: bool
  m_aniso_mode :: AnisotropicMode
  m_comm :: bool
  isCUDAEnabled :: bool
  m_half_step_hook :: bool
  m_prof :: bool
  getAnisotropic :: bool
  getNGlobal :: nat
  getNDimensions :: nat
  isAccelSet :: bool
  getNDOFRemoved :: "ParticleGroup \<Rightarrow> Scalar"
  trace :: "event list"

definition emit :: "event list \<Rightarrow> IntegratorTwoStep \<Rightarrow> IntegratorTwoStep" where
  "emit evs s = s\<lparr>trace := trace s @ evs\<rparr>"

definition prof_push :: "string \<Rightarrow> IntegratorTwoStep \<Rightarrow> IntegratorTwoStep" where
  "prof_push name s = (if m_prof s then emit [ProfPush name] s else s)"

definition prof_pop :: "IntegratorTwoStep \<Rightarrow> IntegratorTwoStep" where
  "prof_pop s = (if m_prof s then emit [ProfPop] s else s)"

subsection \<open>addIntegrationMethod\<close>

text \<open>
  The loop over the registered methods: true when some registered group intersects the
  new group, which is where the source reports the error and throws.
\<close>

fun intersects_registered :: "ParticleGroup \<Rightarrow> IntegrationMethodTwoStep list \<Rightarrow> bool" where
  "intersects_registered new_group [] = False"
| "intersects_registered new_group (method # methods) =
     (let current_group = m_group method;
          intersection = groupIntersection new_group current_group
      in if getNumMembersGlobal intersection > 0 then True
         else intersects_registered new_group methods)"

definition addIntegrationMethod ::
  "IntegrationMethodTwoStep \<Rightarrow> IntegratorTwoStep \<Rightarrow> error option \<times> IntegratorTwoStep" where
  "addIntegrationMethod new_method s0 =
     (let new_group = m_group new_method;
          s1 = (if getNumMembersGlobal new_group = 0
                then emit [MsgWarning ''integrate.mode_standard: An integration method has been added that operates on zero particles.''] s0
                else s0)
      in if intersects_registered new_group (m_methods s1)
         then (Some (RuntimeError ''Error adding integration method''),
               emit [MsgError ''integrate.mode_standard: Multiple integration methods are applied to the same particle''] s1)
         else (None,
               s1\<lparr>m_methods := m_methods s1 @ [new_method\<lparr>m_deltaT := integrator_deltaT s1\<rparr>]\<rparr>))"

subsection \<open>update\<close>

fun step_one_all ::
  "Scalar \<Rightarrow> timestep \<Rightarrow> nat \<Rightarrow> IntegrationMethodTwoStep list
     \<Rightarrow> IntegrationMethodTwoStep list \<times> event list" where
  "step_one_all dt t i [] = ([], [])"
| "step_one_all dt t i (method # methods) =
     (let (methods', evs) = step_one_all dt t (Suc i) methods
      in (method\<lparr>m_deltaT := dt\<rparr> # methods', [SetDeltaT i dt, IntegrateStepOne i t] @ evs))"

fun step_two_all :: "timestep \<Rightarrow> nat \<Rightarrow> IntegrationMethodTwoStep list \<Rightarrow> event list" where
  "step_two_all t i [] = []"
| "step_two_all t i (method # methods) = IntegrateStepTwo i t # step_two_all t (Suc i) methods"

fun update_composites :: "timestep \<Rightarrow> nat \<Rightarrow> nat list \<Rightarrow> event list" where
  "update_composites t i [] = []"
| "update_composites t i (fc # fcs) = UpdateCompositeParticles i t # update_composites t (Suc i) fcs"

definition updateRigidBodies :: "timestep \<Rightarrow> IntegratorTwoStep \<Rightarrow> IntegratorTwoStep" where
  "updateRigidBodies t s = emit (update_composites t 0 (m_composite_forces s)) s"

text \<open>
  \<^verbatim>\<open>assert(m_prepared)\<close> is a branch of the model. In a build without assertions the
  source goes on; the model says nothing about a step on a scheduler that is not prepared.
\<close>

definition update :: "timestep \<Rightarrow> IntegratorTwoStep \<Rightarrow> error option \<times> IntegratorTwoStep" where
  "update t s0 =
     (let s1 = (if \<not> m_gave_warning s0 \<and> length (m_methods s0) = 0
                then (emit [MsgWarning ''integrate.mode_standard: No integration methods are set, continuing anyways.''] s0)
                       \<lparr>m_gave_warning := True\<rparr>
                else s0)
      in if \<not> m_prepared s1 then (Some AssertionFailure, s1)
         else
           let s2 = prof_push ''Integrate'' s1;
               (methods', evs) = step_one_all (integrator_deltaT s2) t 0 (m_methods s2);
               s3 = emit evs (s2\<lparr>m_methods := methods'\<rparr>);
               s4 = prof_pop s3;
               s5 = (if m_comm s4 then emit [Communicate (t + 1)] s4
                     else updateRigidBodies (t + 1) s4);
               s6 = (if isCUDAEnabled s5 then emit [ComputeNetForceGPU (t + 1)] s5
                     else emit [ComputeNetForce (t + 1)] s5);
               s7 = (if m_half_step_hook s6 then emit [HalfStepHookUpdate (t + 1)] s6 else s6);
               s8 = prof_push ''Integrate'' s7;
               s9 = emit (step_two_all t 0 (m_methods s8)) s8;
               s10 = prof_pop s9
           in (None, s10))"

subsection \<open>Degrees of freedom\<close>

definition getTranslationalDOF :: "IntegratorTwoStep \<Rightarrow> ParticleGroup \<Rightarrow> Scalar" where
  "getTranslationalDOF s query_group =
     (let periodic_dof_removed =
            (if getNumMembersGlobal query_group = getNGlobal s
                \<and> length (m_methods s) = 1
                \<and> isMomentumConserving (m_methods s ! 0)
             then real (getNDimensions s)
                    * (real (getNumMembersGlobal query_group) / real (getNGlobal s))
             else 0);
          total = foldl (\<lambda>total method. total + method_getTranslationalDOF method query_group)
                    0 (m_methods s)
      in total - periodic_dof_removed - getNDOFRemoved s query_group)"

text \<open>
  The accumulator of \<^verbatim>\<open>getRotationalDOF\<close> is an \<^verbatim>\<open>int\<close>: \<^verbatim>\<open>res += x\<close> with a \<^verbatim>\<open>Scalar\<close>
  \<^verbatim>\<open>x\<close> adds in floating point and converts back, rounding towards zero.
\<close>

definition scalar_to_int :: "Scalar \<Rightarrow> int" where
  "scalar_to_int v = (if 0 \<le> v then \<lfloor>v\<rfloor> else \<lceil>v\<rceil>)"

text \<open>
  The \<^verbatim>\<open>switch\<close> of \<^verbatim>\<open>getRotationalDOF\<close> has the cases \<^verbatim>\<open>Anisotropic\<close> and
  \<^verbatim>\<open>Automatic/default\<close>; \<^verbatim>\<open>Isotropic\<close> falls into \<^verbatim>\<open>default\<close>.
\<close>

definition getRotationalDOF :: "IntegratorTwoStep \<Rightarrow> ParticleGroup \<Rightarrow> Scalar" where
  "getRotationalDOF s query_group =
     (let aniso = (case m_aniso_mode s of
                     Anisotropic \<Rightarrow> True
                   | Automatic \<Rightarrow> getAnisotropic s
                   | Isotropic \<Rightarrow> getAnisotropic s);
          res = (if aniso
                 then foldl (\<lambda>res method.
                               scalar_to_int (real_of_int res + method_getRotationalDOF method query_group))
                        0 (m_methods s)
                 else 0)
      in real_of_int res)"

subsection \<open>prepRun\<close>

fun set_anisotropic_all ::
  "bool \<Rightarrow> nat \<Rightarrow> IntegrationMethodTwoStep list \<Rightarrow> IntegrationMethodTwoStep list \<times> event list" where
  "set_anisotropic_all aniso i [] = ([], [])"
| "set_anisotropic_all aniso i (method # methods) =
     (let (methods', evs) = set_anisotropic_all aniso (Suc i) methods
      in (method\<lparr>m_aniso := aniso\<rparr> # methods', SetAnisotropic i aniso # evs))"

text \<open>The anisotropic mode that \<^verbatim>\<open>prepRun\<close> resolves, and the warning it gives.\<close>

definition prepRun_aniso :: "IntegratorTwoStep \<Rightarrow> bool \<times> event list" where
  "prepRun_aniso s =
     (case m_aniso_mode s of
        Anisotropic \<Rightarrow>
          (True, if \<not> getAnisotropic s
                 then [MsgWarning ''Forcing anisotropic integration mode with no forces coupling to orientation'']
                 else [])
      | Isotropic \<Rightarrow>
          (False, if getAnisotropic s
                  then [MsgWarning ''Forcing isotropic integration mode with anisotropic forces defined'']
                  else [])
      | Automatic \<Rightarrow> (getAnisotropic s, []))"

definition prepRun :: "timestep \<Rightarrow> IntegratorTwoStep \<Rightarrow> IntegratorTwoStep" where
  "prepRun t s0 =
     (let (aniso, warn) = prepRun_aniso s0;
          s1 = emit warn s0;
          (methods', evs) = set_anisotropic_all aniso 0 (m_methods s1);
          s2 = emit evs (s1\<lparr>m_methods := methods'\<rparr>);
          s3 = (if m_comm s2 then emit [ForceMigrate, Communicate t] s2
                else updateRigidBodies t s2);
          s4 = (if isCUDAEnabled s3 then emit [ComputeNetForceGPU t] s3
                else emit [ComputeNetForce t] s3);
          s5 = (if \<not> isAccelSet s4
                then (emit [ComputeAccelerations t, NotifyAccelSet] s4)\<lparr>isAccelSet := True\<rparr>
                else s4)
      in s5\<lparr>m_prepared := True\<rparr>)"

subsection \<open>Concrete systems\<close>

text \<open>
  Modelled from the spec: \<^verbatim>\<open>IntegrationMethodTwoStep::getTranslationalDOF\<close> of the base class
  (IntegrationMethodTwoStep.cc is not among the sources). As the comment above
  \<^verbatim>\<open>TwoStepRATTLELangevin::getNDOF\<close> says, a method adds D degrees of freedom for each
  particle of the query group that is also in the group of the method.
\<close>

definition base_getTranslationalDOF :: "nat \<Rightarrow> ParticleGroup \<Rightarrow> ParticleGroup \<Rightarrow> Scalar" where
  "base_getTranslationalDOF D method_group query_group =
     real (D * getNumMembersGlobal (groupIntersection query_group method_group))"

definition base_method :: "nat \<Rightarrow> ParticleGroup \<Rightarrow> bool \<Rightarrow> Scalar \<Rightarrow> IntegrationMethodTwoStep" where
  "base_method D grp conserving rot_dof =
     \<lparr>m_group = grp, m_deltaT = 1 / 200, m_aniso = False,
      isMomentumConserving = conserving,
      method_getTranslationalDOF = base_getTranslationalDOF D grp,
      method_getRotationalDOF = (\<lambda>query_group. rot_dof)\<rparr>"

text \<open>
  A system of N particles in D dimensions with one momentum-conserving method on the group
  of all particles; the method reports three rotational degrees of freedom.
\<close>

definition single_method_system :: "nat \<Rightarrow> nat \<Rightarrow> AnisotropicMode \<Rightarrow> bool \<Rightarrow> IntegratorTwoStep" where
  "single_method_system N D mode aniso_forces =
     \<lparr>m_methods = [base_method D [0..<N] True 3],
      m_composite_forces = [], integrator_deltaT = 1 / 200, m_prepared = False,
      m_gave_warning = False, m_aniso_mode = mode, m_comm = False, isCUDAEnabled = False,
      m_half_step_hook = False, m_prof = False, getAnisotropic = aniso_forces,
      getNGlobal = N, getNDimensions = D, isAccelSet = False,
      getNDOFRemoved = (\<lambda>query_group. 0), trace = []\<rparr>"

text \<open>
  A prepared system of four particles with two methods on the groups {0, 1} and {2, 3},
  one composite force, a half-step hook, no communicator, on the CPU.
\<close>

definition two_method_system :: IntegratorTwoStep where
  "two_method_system =
     \<lparr>m_methods = [base_method 3 [0, 1] True 0, base_method 3 [2, 3] False 0],
      m_composite_forces = [0], integrator_deltaT = 1 / 100, m_prepared = True,
      m_gave_warning = False, m_aniso_mode = Automatic, m_comm = False, isCUDAEnabled = False,
      m_half_step_hook = True, m_prof = False, getAnisotropic = False,
      getNGlobal = 4, getNDimensions = 3, isAccelSet = True,
      getNDOFRemoved = (\<lambda>query_group. 0), trace = []\<rparr>"

section \<open>Particle data, manifolds and random numbers\<close>

datatype Scalar3 = make_scalar3 (sx: Scalar) (sy: Scalar) (sz: Scalar)

datatype Scalar4 = make_scalar4 (qx: Scalar) (qy: Scalar) (qz: Scalar) (qw: Scalar)

datatype int3 = make_int3 int int int

text \<open>
  Modelled from the spec: \<^verbatim>\<open>dot\<close> of \<^verbatim>\<open>HOOMDMath.h\<close>, which is not among the sources;
  it is the dot product that the description of the algorithm writes as n . r.
\<close>

definition dot :: "Scalar3 \<Rightarrow> Scalar3 \<Rightarrow> Scalar" where
  "dot a b = sx a * sx b + sy a * sy b + sz a * sz b"

definition maxNorm :: "Scalar3 \<Rightarrow> Scalar \<Rightarrow> Scalar" where
  "maxNorm vec resid =
     (let vec_norm = sqrt (dot vec vec);
          abs_resid = \<bar>resid\<bar>
      in if vec_norm > abs_resid then vec_norm else abs_resid)"

text \<open>
  A manifold is the interface the integration methods call: the implicit function and its
  gradient.
\<close>

record Manifold =
  implicit_function :: "Scalar3 \<Rightarrow> Scalar"
  derivative :: "Scalar3 \<Rightarrow> Scalar3"

text \<open>
  The triply periodic minimal surfaces: the members of a \<^verbatim>\<open>TPMSManifold\<close> that its two
  functions read, as they are after the constructor and \<^verbatim>\<open>setup()\<close> have run. The
  primitive surface is the last branch, taken when neither flag is set.
\<close>

record TPMSManifold =
  gyroid :: bool
  diamond :: bool
  Lx :: Scalar
  Ly :: Scalar
  Lz :: Scalar

definition TPMS_implicit_function :: "TPMSManifold \<Rightarrow> Scalar3 \<Rightarrow> Scalar" where
  "TPMS_implicit_function M point =
     (if gyroid M
      then sin (Lx M * sx point) * cos (Ly M * sy point)
           + sin (Ly M * sy point) * cos (Lz M * sz point)
           + sin (Lz M * sz point) * cos (Lx M * sx point)
      else if diamond M
      then cos (Lx M * sx point) * cos (Ly M * sy point) * cos (Lz M * sz point)
           - sin (Lx M * sx point) * sin (Ly M * sy point) * sin (Lz M * sz point)
      else cos (Lx M * sx point) + cos (Ly M * sy point) + cos (Lz M * sz point))"

definition TPMS_derivative :: "TPMSManifold \<Rightarrow> Scalar3 \<Rightarrow> Scalar3" where
  "TPMS_derivative M point =
     (if gyroid M
      then make_scalar3
             (Lx M * (cos (Lx M * sx point) * cos (Ly M * sy point)
                      - sin (Lz M * sz point) * sin (Lx M * sx point)))
             (Ly M * (cos (Ly M * sy point) * cos (Lz M * sz point)
                      - sin (Lx M * sx point) * sin (Ly M * sy point)))
             (Lz M * (cos (Lz M * sz point) * cos (Lx M * sx point)
                      - sin (Ly M * sy point) * sin (Lz M * sz point)))
      else if diamond M
      then make_scalar3
             (- Lx M * (sin (Lx M * sx point) * cos (Ly M * sy point) * cos (Lz M * sz point)
                        + cos (Lx M * sx point) * sin (Ly M * sy point) * sin (Lz M * sz point)))
             (- Ly M * (cos (Lx M * sx point) * sin (Ly M * sy point) * cos (Lz M * sz point)
                        + sin (Lx M * sx point) * cos (Ly M * sy point) * sin (Lz M * sz point)))
             (- Lz M * (cos (Lx M * sx point) * cos (Ly M * sy point) * sin (Lz M * sz point)
                        + sin (Lx M * sx point) * sin (Ly M * sy point) * cos (Lz M * sz point)))
      else make_scalar3
             (- Lx M * sin (Lx M * sx point))
             (- Ly M * sin (Ly M * sy point))
             (- Lz M * sin (Lz M * sz point)))"

definition TPMS :: "TPMSManifold \<Rightarrow> Manifold" where
  "TPMS M = \<lparr>implicit_function = TPMS_implicit_function M, derivative = TPMS_derivative M\<rparr>"

text \<open>
  The particle data, one field for each array the methods take from \<^verbatim>\<open>m_pdata\<close>. An array
  is a function from the index; the source does no bounds check. The fourth component of a
  position holds the bits of the type id, read with \<^verbatim>\<open>__scalar_as_int\<close>: \<^verbatim>\<open>getTypes\<close> is
  that id. The fourth component of a velocity is the mass. The net virial is one flat
  array of six rows of length \<^verbatim>\<open>getPitch\<close>. The field \<^verbatim>\<open>box_wrap\<close> is the function
  \<^verbatim>\<open>wrap\<close> of the box of the particle data (BoxDim.h is not among the sources): given a
  position and an image it returns the wrapped position and the new image.
\<close>

record ParticleData =
  getPositions :: "nat \<Rightarrow> Scalar4"
  getTypes :: "nat \<Rightarrow> nat"
  getVelocities :: "nat \<Rightarrow> Scalar4"
  getAccelerations :: "nat \<Rightarrow> Scalar3"
  getImages :: "nat \<Rightarrow> int3"
  getOrientationArray :: "nat \<Rightarrow> Scalar4"
  getAngularMomentumArray :: "nat \<Rightarrow> Scalar4"
  getNetForce :: "nat \<Rightarrow> Scalar4"
  getNetVirial :: "nat \<Rightarrow> Scalar"
  getPitch :: nat
  getDiameters :: "nat \<Rightarrow> Scalar"
  getTags :: "nat \<Rightarrow> 32 word"
  box_wrap :: "Scalar4 \<Rightarrow> int3 \<Rightarrow> Scalar4 \<times> int3"

text \<open>
  The random numbers of \<^verbatim>\<open>hoomd/RandomNumbers.h\<close>, which is not among the sources, are
  parameters: the constructor of a generator from an identifier and three words, and the
  two distributions, which take a generator and return the number with the advanced
  generator.
\<close>

datatype RNGIdentifier = TwoStepLangevin | TwoStepBD

record 'g RandomNumbers =
  RandomGenerator :: "RNGIdentifier \<Rightarrow> 32 word \<Rightarrow> 32 word \<Rightarrow> 32 word \<Rightarrow> 'g"
  UniformDistribution :: "Scalar \<Rightarrow> Scalar \<Rightarrow> 'g \<Rightarrow> Scalar \<times> 'g"
  NormalDistribution :: "Scalar \<Rightarrow> 'g \<Rightarrow> Scalar \<times> 'g"

section \<open>The RATTLE iterations\<close>

definition maxiteration :: nat where
  "maxiteration = 10"

subsection \<open>Position stage\<close>

text \<open>
  The do-while loop of \<^verbatim>\<open>TwoStepRATTLENVE::integrateStepOne\<close> and of
  \<^verbatim>\<open>TwoStepRATTLELangevin::IncludeRATTLEForce\<close>: the two functions have the same loop. What
  the loop reads and does not change is in \<^verbatim>\<open>position_solve\<close> (the entries of particle j and
  the values computed before the loop), its variables are in \<^verbatim>\<open>position_locals\<close>.
\<close>

record position_solve =
  ps_manifold :: Manifold
  ps_eta :: Scalar
  ps_deltaT :: Scalar
  ps_pos :: Scalar4
  ps_vel :: Scalar4
  ps_accel :: Scalar3
  ps_normal :: Scalar3
  ps_inv_mass :: Scalar
  ps_deltaT_half :: Scalar
  ps_inv_alpha :: Scalar

record position_locals =
  iteration :: nat
  lambda :: Scalar
  next_pos :: Scalar3
  half_vel :: Scalar3
  residual :: Scalar3
  resid :: Scalar

definition position_iteration ::
  "position_solve \<Rightarrow> nat \<Rightarrow> Scalar \<Rightarrow> Scalar3 \<Rightarrow> position_locals" where
  "position_iteration e iteration0 lambda0 next_pos0 =
     (let iteration1 = iteration0 + 1;
          half_vel1 = make_scalar3
            (qx (ps_vel e) + ps_deltaT_half e * (sx (ps_accel e) - ps_inv_mass e * lambda0 * sx (ps_normal e)))
            (qy (ps_vel e) + ps_deltaT_half e * (sy (ps_accel e) - ps_inv_mass e * lambda0 * sy (ps_normal e)))
            (qz (ps_vel e) + ps_deltaT_half e * (sz (ps_accel e) - ps_inv_mass e * lambda0 * sz (ps_normal e)));
          residual1 = make_scalar3
            (qx (ps_pos e) - sx next_pos0 + ps_deltaT e * sx half_vel1)
            (qy (ps_pos e) - sy next_pos0 + ps_deltaT e * sy half_vel1)
            (qz (ps_pos e) - sz next_pos0 + ps_deltaT e * sz half_vel1);
          resid1 = implicit_function (ps_manifold e) next_pos0;
          next_normal = derivative (ps_manifold e) next_pos0;
          nndotr = dot next_normal residual1;
          nndotn = dot next_normal (ps_normal e);
          beta = (resid1 + nndotr) / nndotn;
          next_pos1 = make_scalar3
            (sx next_pos0 - beta * sx (ps_normal e) + sx residual1)
            (sy next_pos0 - beta * sy (ps_normal e) + sy residual1)
            (sz next_pos0 - beta * sz (ps_normal e) + sz residual1);
          lambda1 = lambda0 - beta * ps_inv_alpha e
      in \<lparr>iteration = iteration1, lambda = lambda1, next_pos = next_pos1,
          half_vel = half_vel1, residual = residual1, resid = resid1\<rparr>)"

function position_loop ::
  "position_solve \<Rightarrow> nat \<Rightarrow> Scalar \<Rightarrow> Scalar3 \<Rightarrow> position_locals" where
  "position_loop e iteration0 lambda0 next_pos0 =
     (let st = position_iteration e iteration0 lambda0 next_pos0
      in if maxNorm (residual st) (resid st) > ps_eta e \<and> iteration st < maxiteration
         then position_loop e (iteration st) (lambda st) (next_pos st)
         else st)"
  by pat_completeness auto
termination
  by (relation "measure (\<lambda>(e, iteration0, lambda0, next_pos0). maxiteration - iteration0)")
     (auto simp: position_iteration_def Let_def)

declare position_loop.simps [simp del]

text \<open>
  The statements before the loop and the loop: \<^verbatim>\<open>lambda = 0\<close>, the candidate position is
  the position of the particle, the normal is the gradient there.
\<close>

definition position_setup ::
  "Manifold \<Rightarrow> Scalar \<Rightarrow> Scalar \<Rightarrow> Scalar4 \<Rightarrow> Scalar4 \<Rightarrow> Scalar3 \<Rightarrow> position_solve" where
  "position_setup manifold eta deltaT pos_j vel_j accel_j =
     (let next_pos0 = make_scalar3 (qx pos_j) (qy pos_j) (qz pos_j);
          normal = derivative manifold next_pos0;
          inv_mass = 1 / qw vel_j;
          deltaT_half = (1 / 2) * deltaT;
          inv_alpha0 = - deltaT_half * deltaT * inv_mass;
          inv_alpha = 1 / inv_alpha0
      in \<lparr>ps_manifold = manifold, ps_eta = eta, ps_deltaT = deltaT, ps_pos = pos_j,
          ps_vel = vel_j, ps_accel = accel_j, ps_normal = normal, ps_inv_mass = inv_mass,
          ps_deltaT_half = deltaT_half, ps_inv_alpha = inv_alpha\<rparr>)"

definition position_rattle ::
  "Manifold \<Rightarrow> Scalar \<Rightarrow> Scalar \<Rightarrow> Scalar4 \<Rightarrow> Scalar4 \<Rightarrow> Scalar3 \<Rightarrow> position_locals" where
  "position_rattle manifold eta deltaT pos_j vel_j accel_j =
     position_loop (position_setup manifold eta deltaT pos_j vel_j accel_j)
       0 0 (make_scalar3 (qx pos_j) (qy pos_j) (qz pos_j))"

subsection \<open>Velocity stage\<close>

text \<open>
  The do-while loop of \<^verbatim>\<open>TwoStepRATTLENVE::integrateStepTwo\<close> and of
  \<^verbatim>\<open>TwoStepRATTLELangevin::integrateStepTwo\<close>, again the same loop in both.
\<close>

record velocity_solve =
  vs_eta :: Scalar
  vs_deltaT :: Scalar
  vs_vel :: Scalar4
  vs_accel :: Scalar3
  vs_normal :: Scalar3
  vs_mass :: Scalar
  vs_inv_mass :: Scalar
  vs_inv_alpha :: Scalar

record velocity_locals =
  v_iteration :: nat
  mu :: Scalar
  next_vel :: Scalar3
  vel_dot :: Scalar3
  v_residual :: Scalar3
  v_resid :: Scalar

definition velocity_iteration ::
  "velocity_solve \<Rightarrow> nat \<Rightarrow> Scalar \<Rightarrow> Scalar3 \<Rightarrow> velocity_locals" where
  "velocity_iteration e iteration0 mu0 next_vel0 =
     (let iteration1 = iteration0 + 1;
          vel_dot1 = make_scalar3
            (sx (vs_accel e) - mu0 * vs_inv_mass e * sx (vs_normal e))
            (sy (vs_accel e) - mu0 * vs_inv_mass e * sy (vs_normal e))
            (sz (vs_accel e) - mu0 * vs_inv_mass e * sz (vs_normal e));
          residual1 = make_scalar3
            (qx (vs_vel e) - sx next_vel0 + (1 / 2) * vs_deltaT e * sx vel_dot1)
            (qy (vs_vel e) - sy next_vel0 + (1 / 2) * vs_deltaT e * sy vel_dot1)
            (qz (vs_vel e) - sz next_vel0 + (1 / 2) * vs_deltaT e * sz vel_dot1);
          resid1 = dot (vs_normal e) next_vel0 * vs_inv_mass e;
          ndotr = dot (vs_normal e) residual1;
          ndotn = dot (vs_normal e) (vs_normal e);
          beta = (vs_mass e * resid1 + ndotr) / ndotn;
          next_vel1 = make_scalar3
            (sx next_vel0 - sx (vs_normal e) * beta + sx residual1)
            (sy next_vel0 - sy (vs_normal e) * beta + sy residual1)
            (sz next_vel0 - sz (vs_normal e) * beta + sz residual1);
          mu1 = mu0 - vs_mass e * beta * vs_inv_alpha e
      in \<lparr>v_iteration = iteration1, mu = mu1, next_vel = next_vel1,
          vel_dot = vel_dot1, v_residual = residual1, v_resid = resid1\<rparr>)"

function velocity_loop ::
  "velocity_solve \<Rightarrow> nat \<Rightarrow> Scalar \<Rightarrow> Scalar3 \<Rightarrow> velocity_locals" where
  "velocity_loop e iteration0 mu0 next_vel0 =
     (let st = velocity_iteration e iteration0 mu0 next_vel0
      in if maxNorm (v_residual st) (v_resid st) * vs_mass e > vs_eta e
            \<and> v_iteration st < maxiteration
         then velocity_loop e (v_iteration st) (mu st) (next_vel st)
         else st)"
  by pat_completeness auto
termination
  by (relation "measure (\<lambda>(e, iteration0, mu0, next_vel0). maxiteration - iteration0)")
     (auto simp: velocity_iteration_def Let_def)

declare velocity_loop.simps [simp del]

text \<open>
  The statements between the computation of the acceleration and the loop, and the loop:
  \<^verbatim>\<open>mu = 0\<close>, the candidate velocity is the unconstrained half step.
\<close>

definition velocity_rattle ::
  "Scalar \<Rightarrow> Scalar \<Rightarrow> Scalar4 \<Rightarrow> Scalar3 \<Rightarrow> Scalar3 \<Rightarrow> velocity_locals" where
  "velocity_rattle eta deltaT vel_j accel_j normal =
     (let mass = qw vel_j;
          inv_mass = 1 / mass;
          inv_alpha0 = - (1 / 2) * deltaT;
          inv_alpha = 1 / inv_alpha0;
          next_vel0 = make_scalar3
            (qx vel_j + (1 / 2) * deltaT * sx accel_j)
            (qy vel_j + (1 / 2) * deltaT * sy accel_j)
            (qz vel_j + (1 / 2) * deltaT * sz accel_j)
      in velocity_loop
           \<lparr>vs_eta = eta, vs_deltaT = deltaT, vs_vel = vel_j, vs_accel = accel_j,
            vs_normal = normal, vs_mass = mass, vs_inv_mass = inv_mass,
            vs_inv_alpha = inv_alpha\<rparr>
           0 0 next_vel0)"

section \<open>The integration methods\<close>

text \<open>
  The members of the two methods. Both derive from \<^verbatim>\<open>IntegrationMethodTwoStep\<close>; the
  manifold and the tolerance, which both have, are collected in one parent record. The
  variant \<^verbatim>\<open>m_T\<close> is the function from the timestep to the temperature, \<^verbatim>\<open>m_gamma\<close> the
  array of the friction coefficients of the particle types. The members that only the
  rotational update and the energy reservoir use are left out.
\<close>

record RATTLEMethod = IntegrationMethodTwoStep +
  m_manifold :: Manifold
  m_eta :: Scalar

record TwoStepRATTLENVE = RATTLEMethod +
  m_limit :: bool
  m_limit_val :: Scalar
  m_zero_force :: bool

record TwoStepRATTLELangevin = RATTLEMethod +
  m_T :: "timestep \<Rightarrow> Scalar"
  m_seed :: "32 word"
  m_use_lambda :: bool
  m_lambda :: Scalar
  m_gamma :: "nat \<Rightarrow> Scalar"
  m_noiseless_t :: bool
  m_tally :: bool

text \<open>
  The loop over the members of a group: \<^verbatim>\<open>body j\<close> is one pass of the loop for the
  particle with index \<^verbatim>\<open>j = m_group->getMemberIndex(group_idx)\<close>.
\<close>

fun group_loop :: "(nat \<Rightarrow> 'a \<Rightarrow> 'a) \<Rightarrow> nat list \<Rightarrow> 'a \<Rightarrow> 'a" where
  "group_loop body [] pd = pd"
| "group_loop body (j # js) pd = group_loop body js (body j pd)"

definition xyz :: "Scalar4 \<Rightarrow> Scalar3" where
  "xyz v = make_scalar3 (qx v) (qy v) (qz v)"

subsection \<open>What the two methods share\<close>

text \<open>
  The position stage for particle j, as integrateStepOne of the NVE method and
  IncludeRATTLEForce of the Langevin method run it: the variables of the loop when it
  has ended.
\<close>

definition rattle_position_particle ::
  "'a RATTLEMethod_scheme \<Rightarrow> nat \<Rightarrow> ParticleData \<Rightarrow> position_locals" where
  "rattle_position_particle m j pd =
     position_rattle (m_manifold m) (m_eta m) (m_deltaT m)
       (getPositions pd j) (getVelocities pd j) (getAccelerations pd j)"

text \<open>
  The velocity stage for particle j, as integrateStepTwo of both methods runs it once the
  acceleration is computed, and the velocity that is then written.
\<close>

definition rattle_velocity_particle ::
  "'a RATTLEMethod_scheme \<Rightarrow> nat \<Rightarrow> ParticleData \<Rightarrow> velocity_locals" where
  "rattle_velocity_particle m j pd =
     velocity_rattle (m_eta m) (m_deltaT m) (getVelocities pd j) (getAccelerations pd j)
       (derivative (m_manifold m) (xyz (getPositions pd j)))"

definition rattle_velocity_update ::
  "'a RATTLEMethod_scheme \<Rightarrow> nat \<Rightarrow> ParticleData \<Rightarrow> Scalar4" where
  "rattle_velocity_update m j pd =
     (let st = rattle_velocity_particle m j pd;
          normal = derivative (m_manifold m) (xyz (getPositions pd j));
          mass = qw (getVelocities pd j);
          inv_mass = 1 / mass;
          v = getVelocities pd j;
          a = getAccelerations pd j
      in make_scalar4
           (qx v + (1 / 2) * m_deltaT m * (sx a - mu st * inv_mass * sx normal))
           (qy v + (1 / 2) * m_deltaT m * (sy a - mu st * inv_mass * sy normal))
           (qz v + (1 / 2) * m_deltaT m * (sz a - mu st * inv_mass * sz normal))
           (qw v))"

subsection \<open>TwoStepRATTLENVE\<close>

text \<open>
  The step functions are modelled for \<^verbatim>\<open>m_aniso = false\<close>: the blocks under
  \<^verbatim>\<open>if (m_aniso)\<close>, which write the orientations and the angular momenta only, are left out.
\<close>

definition nve_zero_force :: "TwoStepRATTLENVE \<Rightarrow> nat \<Rightarrow> ParticleData \<Rightarrow> ParticleData" where
  "nve_zero_force m j pd =
     (if m_zero_force m
      then pd\<lparr>getAccelerations := (getAccelerations pd)(j := make_scalar3 0 0 0)\<rparr>
      else pd)"

definition nve_limit_displacement :: "TwoStepRATTLENVE \<Rightarrow> Scalar3 \<Rightarrow> Scalar3" where
  "nve_limit_displacement m d =
     (let dx = sx d; dy = sy d; dz = sz d
      in if m_limit m
         then (let len = sqrt (dx * dx + dy * dy + dz * dz)
               in if len > m_limit_val m
                  then make_scalar3 (dx / len * m_limit_val m) (dy / len * m_limit_val m)
                         (dz / len * m_limit_val m)
                  else make_scalar3 dx dy dz)
         else make_scalar3 dx dy dz)"

definition nve_step_one_particle :: "TwoStepRATTLENVE \<Rightarrow> nat \<Rightarrow> ParticleData \<Rightarrow> ParticleData" where
  "nve_step_one_particle m j pd0 =
     (let pd1 = nve_zero_force m j pd0;
          st = rattle_position_particle m j pd1;
          pd2 = pd1\<lparr>getVelocities := (getVelocities pd1)
                   (j := make_scalar4 (sx (half_vel st)) (sy (half_vel st)) (sz (half_vel st))
                           (qw (getVelocities pd1 j)))\<rparr>;
          d = nve_limit_displacement m
                (make_scalar3 (m_deltaT m * sx (half_vel st)) (m_deltaT m * sy (half_vel st))
                   (m_deltaT m * sz (half_vel st)))
      in pd2\<lparr>getPositions := (getPositions pd2)
               (j := make_scalar4 (qx (getPositions pd2 j) + sx d) (qy (getPositions pd2 j) + sy d)
                       (qz (getPositions pd2 j) + sz d) (qw (getPositions pd2 j)))\<rparr>)"

definition wrap_particle :: "nat \<Rightarrow> ParticleData \<Rightarrow> ParticleData" where
  "wrap_particle j pd =
     (let (p, i) = box_wrap pd (getPositions pd j) (getImages pd j)
      in pd\<lparr>getPositions := (getPositions pd)(j := p), getImages := (getImages pd)(j := i)\<rparr>)"

text \<open>The first loop of integrateStepOne moves the particles, the second wraps them.\<close>

definition nve_move :: "TwoStepRATTLENVE \<Rightarrow> ParticleData \<Rightarrow> ParticleData" where
  "nve_move m pd = group_loop (nve_step_one_particle m) (m_group m) pd"

definition nve_integrateStepOne :: "TwoStepRATTLENVE \<Rightarrow> timestep \<Rightarrow> ParticleData \<Rightarrow> ParticleData" where
  "nve_integrateStepOne m t pd = group_loop wrap_particle (m_group m) (nve_move m pd)"

definition nve_limit_velocity :: "TwoStepRATTLENVE \<Rightarrow> Scalar4 \<Rightarrow> Scalar4" where
  "nve_limit_velocity m v =
     (if m_limit m
      then (let vel = sqrt (qx v * qx v + qy v * qy v + qz v * qz v)
            in if vel * m_deltaT m > m_limit_val m
               then make_scalar4 (qx v / vel * m_limit_val m / m_deltaT m)
                      (qy v / vel * m_limit_val m / m_deltaT m)
                      (qz v / vel * m_limit_val m / m_deltaT m) (qw v)
               else v)
      else v)"

text \<open>The acceleration that integrateStepTwo computes first.\<close>

definition nve_acceleration :: "TwoStepRATTLENVE \<Rightarrow> nat \<Rightarrow> ParticleData \<Rightarrow> ParticleData" where
  "nve_acceleration m j pd =
     (let mass = qw (getVelocities pd j);
          inv_mass = 1 / mass;
          accel = (if m_zero_force m then make_scalar3 0 0 0
                   else make_scalar3 (qx (getNetForce pd j) * inv_mass)
                          (qy (getNetForce pd j) * inv_mass) (qz (getNetForce pd j) * inv_mass))
      in pd\<lparr>getAccelerations := (getAccelerations pd)(j := accel)\<rparr>)"

definition nve_step_two_particle :: "TwoStepRATTLENVE \<Rightarrow> nat \<Rightarrow> ParticleData \<Rightarrow> ParticleData" where
  "nve_step_two_particle m j pd0 =
     (let pd1 = nve_acceleration m j pd0;
          v1 = rattle_velocity_update m j pd1
      in pd1\<lparr>getVelocities := (getVelocities pd1)(j := nve_limit_velocity m v1)\<rparr>)"

definition nve_integrateStepTwo :: "TwoStepRATTLENVE \<Rightarrow> timestep \<Rightarrow> ParticleData \<Rightarrow> ParticleData" where
  "nve_integrateStepTwo m t pd = group_loop (nve_step_two_particle m) (m_group m) pd"

subsection \<open>TwoStepRATTLELangevin\<close>

text \<open>
  Of the Langevin method the model has IncludeRATTLEForce and, for \<^verbatim>\<open>m_aniso = false\<close>,
  the loop over the group of integrateStepTwo with the sum of the energy transfer that it
  accumulates; the update of the reservoir from that sum is left out.
\<close>

definition langevin_gamma :: "TwoStepRATTLELangevin \<Rightarrow> nat \<Rightarrow> ParticleData \<Rightarrow> Scalar" where
  "langevin_gamma m j pd =
     (if m_use_lambda m then m_lambda m * getDiameters pd j
      else (let type = getTypes pd j in m_gamma m type))"

text \<open>The generator of particle j and the three uniform numbers drawn from it.\<close>

definition langevin_rng ::
  "'g RandomNumbers \<Rightarrow> TwoStepRATTLELangevin \<Rightarrow> timestep \<Rightarrow> nat \<Rightarrow> ParticleData \<Rightarrow> 'g" where
  "langevin_rng rn m t j pd =
     (let ptag = getTags pd j
      in RandomGenerator rn TwoStepLangevin (m_seed m) ptag t)"

definition uniform3 :: "'g RandomNumbers \<Rightarrow> 'g \<Rightarrow> Scalar3" where
  "uniform3 rn rng =
     (let (rx, rng1) = UniformDistribution rn (- 1) 1 rng;
          (ry, rng2) = UniformDistribution rn (- 1) 1 rng1;
          (rz, rng3) = UniformDistribution rn (- 1) 1 rng2
      in make_scalar3 rx ry rz)"

text \<open>
  The random direction after the projection, with the coefficient: the two branches on
  the temperature.
\<close>

definition langevin_random ::
  "'g RandomNumbers \<Rightarrow> TwoStepRATTLELangevin \<Rightarrow> timestep \<Rightarrow> nat \<Rightarrow> ParticleData
     \<Rightarrow> Scalar3 \<times> Scalar" where
  "langevin_random rn m t j pd =
     (let currentTemp = m_T m t;
          rng = langevin_rng rn m t j pd;
          gamma = langevin_gamma m j pd;
          normal = derivative (m_manifold m) (xyz (getPositions pd j));
          ndotn = dot normal normal
      in if currentTemp > 0
         then (let r = uniform3 rn rng;
                   coeff = (if m_noiseless_t m then 0
                            else sqrt (6 * gamma * currentTemp / m_deltaT m));
                   proj_x = sx normal / sqrt ndotn;
                   proj_y = sy normal / sqrt ndotn;
                   proj_z = sz normal / sqrt ndotn;
                   proj_r = sx r * proj_x + sy r * proj_y + sz r * proj_z
               in (make_scalar3 (sx r - proj_r * proj_x) (sy r - proj_r * proj_y)
                     (sz r - proj_r * proj_z), coeff))
         else (make_scalar3 0 0 0, 0))"

definition langevin_bd_force ::
  "'g RandomNumbers \<Rightarrow> TwoStepRATTLELangevin \<Rightarrow> timestep \<Rightarrow> nat \<Rightarrow> ParticleData \<Rightarrow> Scalar3" where
  "langevin_bd_force rn m t j pd =
     (let (r, coeff) = langevin_random rn m t j pd;
          gamma = langevin_gamma m j pd
      in make_scalar3 (sx r * coeff - gamma * qx (getVelocities pd j))
           (sy r * coeff - gamma * qy (getVelocities pd j))
           (sz r * coeff - gamma * qz (getVelocities pd j)))"

text \<open>The acceleration from the net force and the stochastic force.\<close>

definition langevin_acceleration ::
  "'g RandomNumbers \<Rightarrow> TwoStepRATTLELangevin \<Rightarrow> timestep \<Rightarrow> nat \<Rightarrow> ParticleData \<Rightarrow> ParticleData" where
  "langevin_acceleration rn m t j pd =
     (let bd = langevin_bd_force rn m t j pd;
          mass = qw (getVelocities pd j);
          inv_mass = 1 / mass;
          accel = make_scalar3 ((qx (getNetForce pd j) + sx bd) * inv_mass)
                    ((qy (getNetForce pd j) + sy bd) * inv_mass)
                    ((qz (getNetForce pd j) + sz bd) * inv_mass)
      in pd\<lparr>getAccelerations := (getAccelerations pd)(j := accel)\<rparr>)"

text \<open>
  One pass of the loop of integrateStepTwo over the group, with the running sum of the
  energy transfer.
\<close>

definition langevin_step_two_particle ::
  "'g RandomNumbers \<Rightarrow> TwoStepRATTLELangevin \<Rightarrow> timestep \<Rightarrow> nat
     \<Rightarrow> ParticleData \<times> Scalar \<Rightarrow> ParticleData \<times> Scalar" where
  "langevin_step_two_particle rn m t j state =
     (let pd0 = fst state;
          bd_energy_transfer = snd state;
          bd = langevin_bd_force rn m t j pd0;
          pd1 = langevin_acceleration rn m t j pd0;
          v1 = rattle_velocity_update m j pd1;
          pd2 = pd1\<lparr>getVelocities := (getVelocities pd1)(j := v1)\<rparr>
      in (pd2,
          if m_tally m
          then bd_energy_transfer + (sx bd * qx v1 + sy bd * qy v1 + sz bd * qz v1)
          else bd_energy_transfer))"

definition langevin_integrateStepTwo ::
  "'g RandomNumbers \<Rightarrow> TwoStepRATTLELangevin \<Rightarrow> timestep \<Rightarrow> ParticleData
     \<Rightarrow> ParticleData \<times> Scalar" where
  "langevin_integrateStepTwo rn m t pd =
     group_loop (langevin_step_two_particle rn m t) (m_group m) (pd, 0)"

text \<open>
  IncludeRATTLEForce. The index into the net virial is computed in \<^verbatim>\<open>unsigned int\<close>.
\<close>

definition virial_index :: "nat \<Rightarrow> nat \<Rightarrow> nat \<Rightarrow> nat" where
  "virial_index k net_virial_pitch j = (k * net_virial_pitch + j) mod 2 ^ 32"

definition subtract_at :: "(nat \<Rightarrow> Scalar) \<Rightarrow> nat \<Rightarrow> Scalar \<Rightarrow> (nat \<Rightarrow> Scalar)" where
  "subtract_at h i v = h(i := h i - v)"

definition include_rattle_force_particle ::
  "TwoStepRATTLELangevin \<Rightarrow> nat \<Rightarrow> ParticleData \<Rightarrow> ParticleData" where
  "include_rattle_force_particle m j pd =
     (let net_virial_pitch = getPitch pd;
          pos = getPositions pd j;
          st = rattle_position_particle m j pd;
          normal = derivative (m_manifold m) (xyz pos);
          inv_mass = 1 / qw (getVelocities pd j);
          f = getNetForce pd j;
          f1 = make_scalar4 (qx f - lambda st * sx normal) (qy f - lambda st * sy normal)
                 (qz f - lambda st * sz normal) (qw f);
          v0 = getNetVirial pd;
          v1 = subtract_at v0 (virial_index 0 net_virial_pitch j) (lambda st * sx normal * qx pos);
          v2 = subtract_at v1 (virial_index 1 net_virial_pitch j)
                 (0.5 * lambda st * (sy normal * qx pos + sx normal * qy pos));
          v3 = subtract_at v2 (virial_index 2 net_virial_pitch j)
                 (0.5 * lambda st * (sz normal * qx pos + sx normal * qz pos));
          v4 = subtract_at v3 (virial_index 3 net_virial_pitch j) (lambda st * sy normal * qy pos);
          v5 = subtract_at v4 (virial_index 4 net_virial_pitch j)
                 (0.5 * lambda st * (sy normal * qz pos + sz normal * qy pos));
          v6 = subtract_at v5 (virial_index 5 net_virial_pitch j) (lambda st * sz normal * qz pos);
          a = getAccelerations pd j;
          a1 = make_scalar3 (sx a - inv_mass * lambda st * sx normal)
                 (sy a - inv_mass * lambda st * sy normal)
                 (sz a - inv_mass * lambda st * sz normal)
      in pd\<lparr>getNetForce := (getNetForce pd)(j := f1),
            getNetVirial := v6,
            getAccelerations := (getAccelerations pd)(j := a1)\<rparr>)"

definition IncludeRATTLEForce :: "TwoStepRATTLELangevin \<Rightarrow> timestep \<Rightarrow> ParticleData \<Rightarrow> ParticleData" where
  "IncludeRATTLEForce m t pd = group_loop (include_rattle_force_particle m) (m_group m) pd"

definition distance3 :: "Scalar3 \<Rightarrow> Scalar3 \<Rightarrow> Scalar" where
  "distance3 a b =
     sqrt ((sx a - sx b) * (sx a - sx b) + (sy a - sy b) * (sy a - sy b)
           + (sz a - sz b) * (sz a - sz b))"

subsection \<open>The Brownian step on the GPU\<close>




subsection \<open>A concrete manifold, method and particle\<close>

text \<open>
  The gyroid with one unit cell in a box of side 1, so that \<^verbatim>\<open>setup()\<close> computes
  \<^verbatim>\<open>Lx = Ly = Lz = 2 * M_PI\<close>; an NVE method on the group of particle 0; and particle data in
  which every particle has mass 1 and no force, and the box wraps nothing.
\<close>

definition gyroid_unit_cell :: Manifold where
  "gyroid_unit_cell = TPMS \<lparr>gyroid = True, diamond = False, Lx = 2 * pi, Ly = 2 * pi, Lz = 2 * pi\<rparr>"

definition nve_method :: "Manifold \<Rightarrow> Scalar \<Rightarrow> Scalar \<Rightarrow> bool \<Rightarrow> Scalar \<Rightarrow> TwoStepRATTLENVE" where
  "nve_method manifold eta dt limit limit_val =
     \<lparr>m_group = [0], m_deltaT = dt, m_aniso = False, isMomentumConserving = True,
      method_getTranslationalDOF = base_getTranslationalDOF 3 [0],
      method_getRotationalDOF = (\<lambda>query_group. 0),
      m_manifold = manifold, m_eta = eta,
      m_limit = limit, m_limit_val = limit_val, m_zero_force = False\<rparr>"

definition one_particle :: "Scalar3 \<Rightarrow> Scalar3 \<Rightarrow> ParticleData" where
  "one_particle position velocity =
     \<lparr>getPositions = (\<lambda>i. make_scalar4 (sx position) (sy position) (sz position) 0),
      getTypes = (\<lambda>i. 0),
      getVelocities = (\<lambda>i. make_scalar4 (sx velocity) (sy velocity) (sz velocity) 1),
      getAccelerations = (\<lambda>i. make_scalar3 0 0 0),
      getImages = (\<lambda>i. make_int3 0 0 0),
      getOrientationArray = (\<lambda>i. make_scalar4 1 0 0 0),
      getAngularMomentumArray = (\<lambda>i. make_scalar4 0 0 0 0),
      getNetForce = (\<lambda>i. make_scalar4 0 0 0 0),
      getNetVirial = (\<lambda>i. 0),
      getPitch = 1,
      getDiameters = (\<lambda>i. 1),
      getTags = (\<lambda>i. 0),
      box_wrap = (\<lambda>p i. (p, i))\<rparr>"

text \<open>
  A Langevin method with constant temperature and gamma = 1 for every type; a generator
  that is the sum of its three words and counts its draws, whose draws alternate between
  the two ends of the distribution; and the arguments of a launch of the Brownian kernel
  over two tags, in which the particle with tag i has the index i.
\<close>

definition langevin_method ::
  "Manifold \<Rightarrow> Scalar \<Rightarrow> Scalar \<Rightarrow> ParticleGroup \<Rightarrow> Scalar \<Rightarrow> TwoStepRATTLELangevin" where
  "langevin_method manifold eta dt grp temperature =
     \<lparr>m_group = grp, m_deltaT = dt, m_aniso = False, isMomentumConserving = False,
      method_getTranslationalDOF = base_getTranslationalDOF 3 grp,
      method_getRotationalDOF = (\<lambda>query_group. 0),
      m_manifold = manifold, m_eta = eta,
      m_T = (\<lambda>t. temperature), m_seed = 42, m_use_lambda = False, m_lambda = 0,
      m_gamma = (\<lambda>type. 1), m_noiseless_t = False, m_tally = False\<rparr>"

definition alternating_random_numbers :: "nat RandomNumbers" where
  "alternating_random_numbers =
     \<lparr>RandomGenerator = (\<lambda>id seed tag t. unat seed + unat tag + unat t),
      UniformDistribution = (\<lambda>a b g. (if even g then a else b, Suc g)),
      NormalDistribution = (\<lambda>sigma g. (if even g then sigma else - sigma, Suc g))\<rparr>"


section \<open>Properties of the scheduler\<close>

subsection \<open>Closed forms of the loops\<close>

lemma intersects_registered_iff:
  "intersects_registered g ms \<longleftrightarrow> (\<exists>m\<in>set ms. set g \<inter> set (m_group m) \<noteq> {})"
proof (induction ms)
  case Nil
  show ?case by simp
next
  case (Cons m ms)
  have "(0 < length (filter (\<lambda>p. p \<in> set (m_group m)) g)) = (set g \<inter> set (m_group m) \<noteq> {})"
    by (auto simp: filter_empty_conv)
  with Cons show ?case
    by (simp add: groupIntersection_def getNumMembersGlobal_def del: length_greater_0_conv)
qed

lemma upt_length_Cons: "[i..<i + length (x # xs)] = i # [Suc i..<Suc i + length xs]"
  by (simp add: upt_rec)

lemma step_one_all_events:
  "snd (step_one_all dt t i ms)
     = concat (map (\<lambda>k. [SetDeltaT k dt, IntegrateStepOne k t]) [i..<i + length ms])"
proof (induction ms arbitrary: i)
  case Nil
  show ?case by simp
next
  case (Cons m ms)
  from Cons[of "Suc i"] upt_length_Cons[of i m ms] show ?case
    by (simp add: case_prod_unfold Let_def)
qed

lemma step_one_all_methods:
  "fst (step_one_all dt t i ms) = map (\<lambda>m. m\<lparr>m_deltaT := dt\<rparr>) ms"
  by (induction ms arbitrary: i) (simp_all add: case_prod_unfold Let_def)

lemma step_two_all_events:
  "step_two_all t i ms = map (\<lambda>k. IntegrateStepTwo k t) [i..<i + length ms]"
proof (induction ms arbitrary: i)
  case Nil
  show ?case by simp
next
  case (Cons m ms)
  from Cons[of "Suc i"] upt_length_Cons[of i m ms] show ?case by simp
qed

lemma update_composites_events:
  "update_composites t i fcs = map (\<lambda>k. UpdateCompositeParticles k t) [i..<i + length fcs]"
proof (induction fcs arbitrary: i)
  case Nil
  show ?case by simp
next
  case (Cons fc fcs)
  from Cons[of "Suc i"] upt_length_Cons[of i fc fcs] show ?case by simp
qed

lemma emit_fields [simp]:
  "m_methods (emit evs s) = m_methods s"
  "m_composite_forces (emit evs s) = m_composite_forces s"
  "integrator_deltaT (emit evs s) = integrator_deltaT s"
  "m_prepared (emit evs s) = m_prepared s"
  "m_gave_warning (emit evs s) = m_gave_warning s"
  "m_comm (emit evs s) = m_comm s"
  "isCUDAEnabled (emit evs s) = isCUDAEnabled s"
  "m_half_step_hook (emit evs s) = m_half_step_hook s"
  "m_prof (emit evs s) = m_prof s"
  "isAccelSet (emit evs s) = isAccelSet s"
  "trace (emit evs s) = trace s @ evs"
  by (simp_all add: emit_def)

lemma prof_push_emit: "prof_push name s = emit (if m_prof s then [ProfPush name] else []) s"
  by (simp add: prof_push_def emit_def)

lemma prof_pop_emit: "prof_pop s = emit (if m_prof s then [ProfPop] else []) s"
  by (simp add: prof_pop_def emit_def)

lemma updateRigidBodies_emit:
  "updateRigidBodies t s
     = emit (map (\<lambda>k. UpdateCompositeParticles k t) [0..<length (m_composite_forces s)]) s"
  by (simp add: updateRigidBodies_def update_composites_events)

lemma update_prepared:
  assumes "m_prepared s"
  shows "update t s =
     (None,
      emit ((if \<not> m_gave_warning s \<and> m_methods s = []
             then [MsgWarning ''integrate.mode_standard: No integration methods are set, continuing anyways.'']
             else [])
            @ (if m_prof s then [ProfPush ''Integrate''] else [])
            @ concat (map (\<lambda>i. [SetDeltaT i (integrator_deltaT s), IntegrateStepOne i t])
                   [0..<length (m_methods s)])
            @ (if m_prof s then [ProfPop] else [])
            @ (if m_comm s then [Communicate (t + 1)]
               else map (\<lambda>i. UpdateCompositeParticles i (t + 1)) [0..<length (m_composite_forces s)])
            @ [if isCUDAEnabled s then ComputeNetForceGPU (t + 1) else ComputeNetForce (t + 1)]
            @ (if m_half_step_hook s then [HalfStepHookUpdate (t + 1)] else [])
            @ (if m_prof s then [ProfPush ''Integrate''] else [])
            @ map (\<lambda>i. IntegrateStepTwo i t) [0..<length (m_methods s)]
            @ (if m_prof s then [ProfPop] else []))
        (s\<lparr>m_methods := map (\<lambda>m. m\<lparr>m_deltaT := integrator_deltaT s\<rparr>) (m_methods s),
           m_gave_warning := m_gave_warning s \<or> m_methods s = []\<rparr>))"
proof -
  define s1 where "s1 = (if \<not> m_gave_warning s \<and> length (m_methods s) = 0
                then (emit [MsgWarning ''integrate.mode_standard: No integration methods are set, continuing anyways.''] s)
                       \<lparr>m_gave_warning := True\<rparr>
                else s)"
  have s1: "s1 = emit (if \<not> m_gave_warning s \<and> m_methods s = []
             then [MsgWarning ''integrate.mode_standard: No integration methods are set, continuing anyways.'']
             else []) (s\<lparr>m_gave_warning := m_gave_warning s \<or> m_methods s = []\<rparr>)"
    by (cases "m_gave_warning s"; cases "m_methods s = []") (simp_all add: s1_def emit_def)
  have upd: "update t s = (if \<not> m_prepared s1 then (Some AssertionFailure, s1)
         else
           let s2 = prof_push ''Integrate'' s1;
               (methods', evs) = step_one_all (integrator_deltaT s2) t 0 (m_methods s2);
               s3 = emit evs (s2\<lparr>m_methods := methods'\<rparr>);
               s4 = prof_pop s3;
               s5 = (if m_comm s4 then emit [Communicate (t + 1)] s4
                     else updateRigidBodies (t + 1) s4);
               s6 = (if isCUDAEnabled s5 then emit [ComputeNetForceGPU (t + 1)] s5
                     else emit [ComputeNetForce (t + 1)] s5);
               s7 = (if m_half_step_hook s6 then emit [HalfStepHookUpdate (t + 1)] s6 else s6);
               s8 = prof_push ''Integrate'' s7;
               s9 = emit (step_two_all t 0 (m_methods s8)) s8;
               s10 = prof_pop s9
           in (None, s10))"
    unfolding update_def s1_def Let_def by (rule refl)
  show ?thesis
    unfolding upd s1
    using assms
    by (cases "m_prof s"; cases "m_comm s"; cases "isCUDAEnabled s"; cases "m_half_step_hook s")
       (simp_all add: Let_def case_prod_unfold prof_push_emit prof_pop_emit updateRigidBodies_emit
          step_one_all_events step_one_all_methods step_two_all_events emit_def)
qed

lemma intersection_upt: "n \<le> m \<Longrightarrow> length (filter (\<lambda>p. p \<in> set [0..<m]) [0..<n]) = n"
proof -
  assume "n \<le> m"
  then have "filter (\<lambda>p. p \<in> set [0..<m]) [0..<n] = [0..<n]"
    by (intro filter_True) auto
  then show ?thesis by simp
qed

subsection \<open>Translational degrees of freedom\<close>

text \<open>
  The correction is guarded by a test on the size of the query group, so a query group
  that is not the whole population gets no correction at all.
\<close>

lemma getTranslationalDOF_strict_subset:
  "getNumMembersGlobal query_group \<noteq> getNGlobal s \<Longrightarrow>
   getTranslationalDOF s query_group
     = foldl (\<lambda>total method. total + method_getTranslationalDOF method query_group) 0 (m_methods s)
       - getNDOFRemoved s query_group"
  by (simp add: getTranslationalDOF_def)

text \<open>
  C1. In a system of 100 particles in three dimensions with one momentum-conserving method
  on all particles, the query on all particles gives 100 * 3 - 3 = 297 degrees of freedom,
  and the query on a group of 50 particles gives 150: nothing of the correction is taken
  from the subset, where the proportional share would give 148.5.
\<close>

theorem getTranslationalDOF_subset_unreduced:
  "getTranslationalDOF (single_method_system 100 3 Automatic False) [0..<100] = 297
   \<and> getTranslationalDOF (single_method_system 100 3 Automatic False) [0..<50] = 150"
  by (simp add: getTranslationalDOF_def single_method_system_def base_method_def
        base_getTranslationalDOF_def getNumMembersGlobal_def groupIntersection_def
        intersection_upt Let_def)

subsection \<open>Insertion of a method\<close>

text \<open>
  C2. When the group of the new method shares a particle with the group of a registered
  method, addIntegrationMethod throws the runtime error, the list of methods is unchanged
  and so is the rest of the scheduler, apart from the error message it has printed. When
  the new group is disjoint from every registered group, there is no error and the method
  is appended to the list with the time step of the scheduler.
\<close>

theorem addIntegrationMethod_rejects_overlap:
  "((\<exists>m\<in>set (m_methods s). set (m_group new_method) \<inter> set (m_group m) \<noteq> {}) \<longrightarrow>
      fst (addIntegrationMethod new_method s) = Some (RuntimeError ''Error adding integration method'')
      \<and> m_methods (snd (addIntegrationMethod new_method s)) = m_methods s
      \<and> snd (addIntegrationMethod new_method s)
          = s\<lparr>trace := trace s @ [MsgError ''integrate.mode_standard: Multiple integration methods are applied to the same particle'']\<rparr>)
   \<and> ((\<forall>m\<in>set (m_methods s). set (m_group new_method) \<inter> set (m_group m) = {}) \<longrightarrow>
      fst (addIntegrationMethod new_method s) = None
      \<and> m_methods (snd (addIntegrationMethod new_method s))
          = m_methods s @ [new_method\<lparr>m_deltaT := integrator_deltaT s\<rparr>])"
proof (intro conjI impI)
  assume ov: "\<exists>m\<in>set (m_methods s). set (m_group new_method) \<inter> set (m_group m) \<noteq> {}"
  then have ne: "m_group new_method \<noteq> []" by auto
  from ov have ir: "intersects_registered (m_group new_method) (m_methods s)"
    by (simp add: intersects_registered_iff)
  from ne ir show "fst (addIntegrationMethod new_method s) = Some (RuntimeError ''Error adding integration method'')"
    by (simp add: addIntegrationMethod_def getNumMembersGlobal_def Let_def)
  from ne ir show "m_methods (snd (addIntegrationMethod new_method s)) = m_methods s"
    by (simp add: addIntegrationMethod_def getNumMembersGlobal_def Let_def)
  from ne ir show "snd (addIntegrationMethod new_method s)
          = s\<lparr>trace := trace s @ [MsgError ''integrate.mode_standard: Multiple integration methods are applied to the same particle'']\<rparr>"
    by (simp add: addIntegrationMethod_def getNumMembersGlobal_def Let_def emit_def)
next
  assume dj: "\<forall>m\<in>set (m_methods s). set (m_group new_method) \<inter> set (m_group m) = {}"
  then have ir: "\<And>evs. \<not> intersects_registered (m_group new_method) (m_methods (emit evs s))"
    by (simp add: intersects_registered_iff)
  from dj have ir0: "\<not> intersects_registered (m_group new_method) (m_methods s)"
    by (simp add: intersects_registered_iff)
  from ir ir0 show "fst (addIntegrationMethod new_method s) = None"
    by (simp add: addIntegrationMethod_def Let_def)
  from ir ir0 show "m_methods (snd (addIntegrationMethod new_method s))
          = m_methods s @ [new_method\<lparr>m_deltaT := integrator_deltaT s\<rparr>]"
    by (simp add: addIntegrationMethod_def Let_def)
qed

text \<open>
  On the system with the groups {0, 1} and {2, 3}: a method on {3, 4} is rejected and the
  list of methods stays as it was; a method on {4, 5} is appended and gets the time step
  1/100 of the scheduler.
\<close>

theorem addIntegrationMethod_rejects_overlap_witness:
  "fst (addIntegrationMethod (base_method 3 [3, 4] True 0) two_method_system)
     = Some (RuntimeError ''Error adding integration method'')
   \<and> m_methods (snd (addIntegrationMethod (base_method 3 [3, 4] True 0) two_method_system))
     = m_methods two_method_system
   \<and> fst (addIntegrationMethod (base_method 3 [4, 5] True 0) two_method_system) = None
   \<and> map m_group (m_methods (snd (addIntegrationMethod (base_method 3 [4, 5] True 0)
                                     two_method_system)))
     = [[0, 1], [2, 3], [4, 5]]
   \<and> map m_deltaT (m_methods (snd (addIntegrationMethod (base_method 3 [4, 5] True 0)
                                      two_method_system)))
     = [1 / 200, 1 / 200, 1 / 100]"
  using addIntegrationMethod_rejects_overlap [of two_method_system "base_method 3 [3, 4] True 0"]
        addIntegrationMethod_rejects_overlap [of two_method_system "base_method 3 [4, 5] True 0"]
  by (simp add: two_method_system_def base_method_def)

subsection \<open>Rotational degrees of freedom\<close>

text \<open>
  C5. With the mode set to isotropic and forces that couple to orientation, prepRun
  resolves the mode to false and hands false to the method, but getRotationalDOF resolves
  the mode on its own, takes the default branch and returns the three rotational degrees
  of freedom of the method instead of 0.
\<close>

theorem getRotationalDOF_isotropic_nonzero:
  "getRotationalDOF (single_method_system 100 3 Isotropic True) [0..<100] = 3
   \<and> fst (prepRun_aniso (single_method_system 100 3 Isotropic True)) = False
   \<and> map m_aniso (m_methods (prepRun t (single_method_system 100 3 Isotropic True))) = [False]"
  by (simp add: getRotationalDOF_def single_method_system_def base_method_def prepRun_aniso_def
        prepRun_def scalar_to_int_def Let_def emit_def updateRigidBodies_def)

subsection \<open>Order of a time step\<close>

text \<open>
  C7. On a prepared scheduler, update(t) does not fail, gives every method the time step of
  the scheduler, and makes these calls in this order (after the warning of a scheduler
  without methods; the profiler calls are there when a profiler is set): for each method in
  registration order setDeltaT and integrateStepOne(t); then communicate(t+1) when there
  is a communicator, and otherwise updateCompositeParticles(t+1) on every composite force;
  then one computation of the net force at t+1, on the GPU when it is enabled and on the
  CPU otherwise; then the half-step hook with t+1 when it is set; then integrateStepTwo(t)
  for each method in registration order.
\<close>

theorem update_order:
  "m_prepared s \<Longrightarrow>
     fst (update t s) = None
   \<and> m_methods (snd (update t s)) = map (\<lambda>m. m\<lparr>m_deltaT := integrator_deltaT s\<rparr>) (m_methods s)
   \<and> trace (snd (update t s)) =
       trace s
       @ (if \<not> m_gave_warning s \<and> m_methods s = []
          then [MsgWarning ''integrate.mode_standard: No integration methods are set, continuing anyways.'']
          else [])
       @ (if m_prof s then [ProfPush ''Integrate''] else [])
       @ concat (map (\<lambda>i. [SetDeltaT i (integrator_deltaT s), IntegrateStepOne i t])
                   [0..<length (m_methods s)])
       @ (if m_prof s then [ProfPop] else [])
       @ (if m_comm s then [Communicate (t + 1)]
          else map (\<lambda>i. UpdateCompositeParticles i (t + 1)) [0..<length (m_composite_forces s)])
       @ [if isCUDAEnabled s then ComputeNetForceGPU (t + 1) else ComputeNetForce (t + 1)]
       @ (if m_half_step_hook s then [HalfStepHookUpdate (t + 1)] else [])
       @ (if m_prof s then [ProfPush ''Integrate''] else [])
       @ map (\<lambda>i. IntegrateStepTwo i t) [0..<length (m_methods s)]
       @ (if m_prof s then [ProfPop] else [])"
  by (simp add: update_prepared)

theorem update_order_witness:
  "m_prepared two_method_system
   \<and> fst (update 7 two_method_system) = None
   \<and> trace (snd (update 7 two_method_system)) =
       [SetDeltaT 0 (1 / 100), IntegrateStepOne 0 7, SetDeltaT 1 (1 / 100), IntegrateStepOne 1 7,
        UpdateCompositeParticles 0 8, ComputeNetForce 8, HalfStepHookUpdate 8,
        IntegrateStepTwo 0 7, IntegrateStepTwo 1 7]"
  using update_order [of two_method_system 7]
  by (simp add: two_method_system_def base_method_def upt_rec)

section \<open>Properties of the RATTLE iterations\<close>

subsection \<open>The loops end within the cap\<close>

lemma maxNorm_nonneg: "0 \<le> maxNorm v r"
proof -
  have "\<bar>r\<bar> \<le> maxNorm v r" by (simp add: maxNorm_def Let_def)
  then show ?thesis by linarith
qed


lemma position_iteration_iteration [simp]:
  "iteration (position_iteration e i l x) = Suc i"
  by (simp add: position_iteration_def Let_def)

lemma velocity_iteration_iteration [simp]:
  "v_iteration (velocity_iteration e i l x) = Suc i"
  by (simp add: velocity_iteration_def Let_def)

text \<open>The loop ends in the state of its last pass, and there the test of the loop fails.\<close>

lemma position_loop_exit:
  "\<exists>i l x. position_loop e i0 l0 x0 = position_iteration e i l x \<and> i0 \<le> i
      \<and> (i0 < maxiteration \<longrightarrow> i < maxiteration)
      \<and> \<not> (maxNorm (residual (position_iteration e i l x)) (resid (position_iteration e i l x)) > ps_eta e
            \<and> Suc i < maxiteration)"
proof (induction e i0 l0 x0 rule: position_loop.induct)
  case (1 e i0 l0 x0)
  define st where "st = position_iteration e i0 l0 x0"
  show ?case
  proof (cases "maxNorm (residual st) (resid st) > ps_eta e \<and> iteration st < maxiteration")
    case True
    from "1.IH"[OF st_def True] obtain i l x where
      h: "position_loop e (iteration st) (lambda st) (next_pos st) = position_iteration e i l x"
         "iteration st \<le> i" "iteration st < maxiteration \<longrightarrow> i < maxiteration"
         "\<not> (maxNorm (residual (position_iteration e i l x)) (resid (position_iteration e i l x)) > ps_eta e
            \<and> Suc i < maxiteration)"
      by blast
    have "position_loop e i0 l0 x0 = position_iteration e i l x"
      using True h(1) by (subst position_loop.simps) (simp add: st_def Let_def)
    moreover have "i0 \<le> i" using h(2) by (simp add: st_def)
    moreover have "i < maxiteration" using h(3) True by simp
    ultimately show ?thesis using h(4) by blast
  next
    case False
    have "position_loop e i0 l0 x0 = position_iteration e i0 l0 x0"
      using False by (subst position_loop.simps) (auto simp: st_def Let_def)
    with False show ?thesis by (auto simp: st_def)
  qed
qed

lemma velocity_loop_exit:
  "\<exists>i l x. velocity_loop e i0 l0 x0 = velocity_iteration e i l x \<and> i0 \<le> i
      \<and> (i0 < maxiteration \<longrightarrow> i < maxiteration)
      \<and> \<not> (maxNorm (v_residual (velocity_iteration e i l x)) (v_resid (velocity_iteration e i l x)) * vs_mass e > vs_eta e
            \<and> Suc i < maxiteration)"
proof (induction e i0 l0 x0 rule: velocity_loop.induct)
  case (1 e i0 l0 x0)
  define st where "st = velocity_iteration e i0 l0 x0"
  show ?case
  proof (cases "maxNorm (v_residual st) (v_resid st) * vs_mass e > vs_eta e \<and> v_iteration st < maxiteration")
    case True
    from "1.IH"[OF st_def True] obtain i l x where
      h: "velocity_loop e (v_iteration st) (mu st) (next_vel st) = velocity_iteration e i l x"
         "v_iteration st \<le> i" "v_iteration st < maxiteration \<longrightarrow> i < maxiteration"
         "\<not> (maxNorm (v_residual (velocity_iteration e i l x)) (v_resid (velocity_iteration e i l x)) * vs_mass e > vs_eta e
            \<and> Suc i < maxiteration)"
      by blast
    have "velocity_loop e i0 l0 x0 = velocity_iteration e i l x"
      using True h(1) by (subst velocity_loop.simps) (simp add: st_def Let_def)
    moreover have "i0 \<le> i" using h(2) by (simp add: st_def)
    moreover have "i < maxiteration" using h(3) True by simp
    ultimately show ?thesis using h(4) by blast
  next
    case False
    have "velocity_loop e i0 l0 x0 = velocity_iteration e i0 l0 x0"
      using False by (subst velocity_loop.simps) (auto simp: st_def Let_def)
    with False show ?thesis by (auto simp: st_def)
  qed
qed

lemma position_loop_bounded:
  assumes "i0 < maxiteration"
  shows "i0 < iteration (position_loop e i0 l0 x0)"
    and "iteration (position_loop e i0 l0 x0) \<le> maxiteration"
    and "iteration (position_loop e i0 l0 x0) = maxiteration
         \<or> maxNorm (residual (position_loop e i0 l0 x0)) (resid (position_loop e i0 l0 x0)) \<le> ps_eta e"
proof -
  from position_loop_exit[of e i0 l0 x0] assms obtain i l x where
    h: "position_loop e i0 l0 x0 = position_iteration e i l x" "i0 \<le> i" "i < maxiteration"
       "\<not> (maxNorm (residual (position_iteration e i l x)) (resid (position_iteration e i l x)) > ps_eta e
            \<and> Suc i < maxiteration)"
    by blast
  show "i0 < iteration (position_loop e i0 l0 x0)" using h by simp
  show "iteration (position_loop e i0 l0 x0) \<le> maxiteration" using h by simp
  show "iteration (position_loop e i0 l0 x0) = maxiteration
         \<or> maxNorm (residual (position_loop e i0 l0 x0)) (resid (position_loop e i0 l0 x0)) \<le> ps_eta e"
    using h by (auto simp: not_less)
qed

lemma velocity_loop_bounded:
  assumes "i0 < maxiteration"
  shows "i0 < v_iteration (velocity_loop e i0 l0 x0)"
    and "v_iteration (velocity_loop e i0 l0 x0) \<le> maxiteration"
    and "v_iteration (velocity_loop e i0 l0 x0) = maxiteration
         \<or> maxNorm (v_residual (velocity_loop e i0 l0 x0)) (v_resid (velocity_loop e i0 l0 x0)) * vs_mass e \<le> vs_eta e"
proof -
  from velocity_loop_exit[of e i0 l0 x0] assms obtain i l x where
    h: "velocity_loop e i0 l0 x0 = velocity_iteration e i l x" "i0 \<le> i" "i < maxiteration"
       "\<not> (maxNorm (v_residual (velocity_iteration e i l x)) (v_resid (velocity_iteration e i l x)) * vs_mass e > vs_eta e
            \<and> Suc i < maxiteration)"
    by blast
  show "i0 < v_iteration (velocity_loop e i0 l0 x0)" using h by simp
  show "v_iteration (velocity_loop e i0 l0 x0) \<le> maxiteration" using h by simp
  show "v_iteration (velocity_loop e i0 l0 x0) = maxiteration
         \<or> maxNorm (v_residual (velocity_loop e i0 l0 x0)) (v_resid (velocity_loop e i0 l0 x0)) * vs_mass e \<le> vs_eta e"
    using h by (auto simp: not_less)
qed

subsection \<open>What the test of the position loop says about the last iterate\<close>






subsection \<open>The velocity after a pass of the velocity loop is tangent\<close>







subsection \<open>Steps on the gyroid\<close>


lemma gyroid_origin:
  "implicit_function gyroid_unit_cell (make_scalar3 0 0 0) = 0"
  "derivative gyroid_unit_cell (make_scalar3 0 0 0) = make_scalar3 (2 * pi) (2 * pi) (2 * pi)"
  by (simp_all add: gyroid_unit_cell_def TPMS_def TPMS_implicit_function_def TPMS_derivative_def)








section \<open>Properties of the integration methods\<close>

subsection \<open>Loops over a group\<close>

text \<open>
  A pass of a loop over a group that keeps a projection of the state (and an invariant)
  keeps it over the whole loop; and in a group without duplicates, what the pass for j
  establishes between the projections before and after holds between the state before
  the loop and the state after it, when the other passes keep the projection.
\<close>

lemma group_loop_frame:
  assumes "\<And>i pd. i \<in> set js \<Longrightarrow> Inv pd \<Longrightarrow> Inv (body i pd) \<and> proj (body i pd) = proj pd"
    and "Inv pd"
  shows "Inv (group_loop body js pd) \<and> proj (group_loop body js pd) = proj pd"
  using assms
proof (induction js arbitrary: pd)
  case Nil
  then show ?case by simp
next
  case (Cons a js)
  have a: "Inv (body a pd) \<and> proj (body a pd) = proj pd"
    using Cons.prems(1)[of a pd] Cons.prems(2) by simp
  have "Inv (group_loop body js (body a pd)) \<and> proj (group_loop body js (body a pd)) = proj (body a pd)"
    using Cons.prems(1) a by (intro Cons.IH) auto
  with a show ?case by simp
qed

lemma group_loop_each:
  assumes "distinct js" and "j \<in> set js" and "Inv pd"
    and inv: "\<And>i pd. i \<in> set js \<Longrightarrow> Inv pd \<Longrightarrow> Inv (body i pd)"
    and frame: "\<And>i pd. i \<in> set js \<Longrightarrow> i \<noteq> j \<Longrightarrow> Inv pd \<Longrightarrow> proj (body i pd) = proj pd"
    and step: "\<And>pd. Inv pd \<Longrightarrow> R (proj pd) (proj (body j pd))"
  shows "R (proj pd) (proj (group_loop body js pd))"
  using assms
proof (induction js arbitrary: pd)
  case Nil
  then show ?case by simp
next
  case (Cons a js)
  show ?case
  proof (cases "a = j")
    case True
    then have nj: "j \<notin> set js" using Cons.prems(1) by simp
    have "Inv (group_loop body js (body j pd)) \<and> proj (group_loop body js (body j pd)) = proj (body j pd)"
    proof (rule group_loop_frame)
      fix i pd' assume "i \<in> set js" "Inv pd'"
      then show "Inv (body i pd') \<and> proj (body i pd') = proj pd'"
        using Cons.prems(4)[of i pd'] Cons.prems(5)[of i pd'] nj by auto
    next
      show "Inv (body j pd)" using Cons.prems(3) Cons.prems(4)[of j pd] True by simp
    qed
    then show ?thesis using Cons.prems(6)[OF Cons.prems(3)] True by simp
  next
    case False
    then have j: "j \<in> set js" using Cons.prems(2) by simp
    have a: "Inv (body a pd)" "proj (body a pd) = proj pd"
      using Cons.prems(4)[of a pd] Cons.prems(5)[of a pd] Cons.prems(3) False by simp_all
    have "R (proj (body a pd)) (proj (group_loop body js (body a pd)))"
      using Cons.prems(1) j a(1) Cons.prems(4,5,6) by (intro Cons.IH) auto
    then show ?thesis using a(2) by simp
  qed
qed

subsection \<open>The limit of the NVE method\<close>

lemma sqrt_scaled:
  assumes "0 < len" "len = sqrt (dx * dx + dy * dy + dz * dz)" "0 \<le> L"
  shows "sqrt ((dx / len * L) * (dx / len * L) + (dy / len * L) * (dy / len * L)
               + (dz / len * L) * (dz / len * L)) = L"
proof -
  define k where "k = L / len"
  have nn: "0 \<le> dx * dx + dy * dy + dz * dz" by simp
  have len2: "len * len = dx * dx + dy * dy + dz * dz"
    using assms(2) nn by simp
  have k: "\<And>u. u / len * L = u * k" by (simp add: k_def)
  have "(dx / len * L) * (dx / len * L) + (dy / len * L) * (dy / len * L)
               + (dz / len * L) * (dz / len * L) = (dx * dx + dy * dy + dz * dz) * (k * k)"
    unfolding k by (simp add: algebra_simps)
  also have "\<dots> = (len * k) * (len * k)"
    unfolding len2[symmetric] by (simp add: algebra_simps)
  also have "len * k = L" using assms(1) by (simp add: k_def)
  finally show ?thesis using assms(3) by simp
qed

lemma nve_limit_displacement_bound:
  assumes "m_limit m" "0 \<le> m_limit_val m"
  shows "sqrt (dot (nve_limit_displacement m d) (nve_limit_displacement m d)) \<le> m_limit_val m"
proof (cases "sqrt (sx d * sx d + sy d * sy d + sz d * sz d) > m_limit_val m")
  case True
  then have pos: "0 < sqrt (sx d * sx d + sy d * sy d + sz d * sz d)" using assms(2) by linarith
  show ?thesis
    using True assms sqrt_scaled[OF pos refl assms(2)]
    by (simp add: nve_limit_displacement_def Let_def dot_def)
next
  case False
  then show ?thesis using assms by (simp add: nve_limit_displacement_def Let_def dot_def)
qed

lemma nve_limit_velocity_bound:
  assumes "m_limit m" "0 \<le> m_limit_val m"
  shows "sqrt (dot (xyz (nve_limit_velocity m v)) (xyz (nve_limit_velocity m v))) * m_deltaT m
           \<le> m_limit_val m"
proof (cases "sqrt (qx v * qx v + qy v * qy v + qz v * qz v) * m_deltaT m > m_limit_val m")
  case True
  define vel where "vel = sqrt (qx v * qx v + qy v * qy v + qz v * qz v)"
  define L where "L = m_limit_val m"
  define h where "h = m_deltaT m"
  have vel0: "0 \<le> vel" by (simp add: vel_def)
  from True assms(2) have p: "0 < vel * h" by (simp add: vel_def h_def)
  with vel0 have vel: "0 < vel" and h: "0 < h"
    by (auto simp: zero_less_mult_iff)
  have Lh: "0 \<le> L / h" using assms(2) h by (simp add: L_def)
  have "sqrt ((qx v / vel * (L / h)) * (qx v / vel * (L / h))
              + (qy v / vel * (L / h)) * (qy v / vel * (L / h))
              + (qz v / vel * (L / h)) * (qz v / vel * (L / h))) = L / h"
    by (rule sqrt_scaled[OF vel vel_def Lh])
  then have "sqrt (dot (xyz (nve_limit_velocity m v)) (xyz (nve_limit_velocity m v))) = L / h"
    using True assms(1)
    by (simp add: nve_limit_velocity_def Let_def dot_def xyz_def vel_def[symmetric]
          L_def[symmetric] h_def[symmetric])
  then show ?thesis using h by (simp add: L_def h_def)
next
  case False
  then show ?thesis using assms by (simp add: nve_limit_velocity_def Let_def dot_def xyz_def)
qed

lemma nve_step_one_particle_other:
  "k \<noteq> j \<Longrightarrow> getPositions (nve_step_one_particle m j pd) k = getPositions pd k"
  by (simp add: nve_step_one_particle_def nve_zero_force_def Let_def)

lemma nve_step_one_particle_position:
  "xyz (getPositions (nve_step_one_particle m j pd) j)
     = make_scalar3
         (qx (getPositions pd j) + sx (nve_limit_displacement m
            (make_scalar3
               (m_deltaT m * sx (half_vel (rattle_position_particle m j (nve_zero_force m j pd))))
               (m_deltaT m * sy (half_vel (rattle_position_particle m j (nve_zero_force m j pd))))
               (m_deltaT m * sz (half_vel (rattle_position_particle m j (nve_zero_force m j pd)))))))
         (qy (getPositions pd j) + sy (nve_limit_displacement m
            (make_scalar3
               (m_deltaT m * sx (half_vel (rattle_position_particle m j (nve_zero_force m j pd))))
               (m_deltaT m * sy (half_vel (rattle_position_particle m j (nve_zero_force m j pd))))
               (m_deltaT m * sz (half_vel (rattle_position_particle m j (nve_zero_force m j pd)))))))
         (qz (getPositions pd j) + sz (nve_limit_displacement m
            (make_scalar3
               (m_deltaT m * sx (half_vel (rattle_position_particle m j (nve_zero_force m j pd))))
               (m_deltaT m * sy (half_vel (rattle_position_particle m j (nve_zero_force m j pd))))
               (m_deltaT m * sz (half_vel (rattle_position_particle m j (nve_zero_force m j pd)))))))"
proof -
  have "getPositions (nve_zero_force m j pd) = getPositions pd"
    by (simp add: nve_zero_force_def)
  then show ?thesis
    by (simp add: nve_step_one_particle_def Let_def xyz_def)
qed

lemma distance3_translate:
  "distance3 (make_scalar3 (a + sx d) (b + sy d) (c + sz d)) (make_scalar3 a b c) = sqrt (dot d d)"
  by (simp add: distance3_def dot_def)

lemma nve_step_one_particle_bound:
  assumes "m_limit m" "0 \<le> m_limit_val m"
  shows "distance3 (xyz (getPositions (nve_step_one_particle m j pd) j)) (xyz (getPositions pd j))
           \<le> m_limit_val m"
  unfolding nve_step_one_particle_position
  unfolding xyz_def distance3_translate
  by (rule nve_limit_displacement_bound[OF assms])

lemma nve_step_two_particle_other:
  "k \<noteq> j \<Longrightarrow> getVelocities (nve_step_two_particle m j pd) k = getVelocities pd k"
  by (simp add: nve_step_two_particle_def nve_acceleration_def Let_def)

lemma nve_step_two_particle_velocity:
  "getVelocities (nve_step_two_particle m j pd) j
     = nve_limit_velocity m (rattle_velocity_update m j (nve_acceleration m j pd))"
  by (simp add: nve_step_two_particle_def Let_def)

text \<open>
  C9. With the limit set to a value L that is not negative, and a group without
  duplicates: the first loop of integrateStepOne, which applies the limit to the
  displacement that the RATTLE iteration has produced, moves every particle of the group
  by a distance of at most L (this is the position before the box wraps it), and after
  integrateStepTwo the speed v of every particle of the group satisfies v * deltaT <= L.
\<close>

theorem nve_limit_bounds_move:
  "distinct (m_group m) \<and> m_limit m \<and> 0 \<le> m_limit_val m \<longrightarrow>
     (\<forall>j\<in>set (m_group m).
        distance3 (xyz (getPositions (nve_move m pd) j)) (xyz (getPositions pd j)) \<le> m_limit_val m
      \<and> sqrt (dot (xyz (getVelocities (nve_integrateStepTwo m t pd) j))
                  (xyz (getVelocities (nve_integrateStepTwo m t pd) j))) * m_deltaT m
          \<le> m_limit_val m)"
proof (intro impI ballI conjI)
  fix j
  assume h: "distinct (m_group m) \<and> m_limit m \<and> 0 \<le> m_limit_val m" and j: "j \<in> set (m_group m)"
  show "distance3 (xyz (getPositions (nve_move m pd) j)) (xyz (getPositions pd j)) \<le> m_limit_val m"
    unfolding nve_move_def
    using h j
    by (intro group_loop_each[where Inv = "\<lambda>pd. True" and proj = "\<lambda>pd. getPositions pd j"
            and R = "\<lambda>p p'. distance3 (xyz p') (xyz p) \<le> m_limit_val m"
            and body = "nve_step_one_particle m" and j = j and js = "m_group m"])
       (simp_all add: nve_step_one_particle_other nve_step_one_particle_bound)
  show "sqrt (dot (xyz (getVelocities (nve_integrateStepTwo m t pd) j))
                  (xyz (getVelocities (nve_integrateStepTwo m t pd) j))) * m_deltaT m
          \<le> m_limit_val m"
    unfolding nve_integrateStepTwo_def
    using h j
    by (intro group_loop_each[where Inv = "\<lambda>pd. True" and proj = "\<lambda>pd. getVelocities pd j"
            and R = "\<lambda>p p'. sqrt (dot (xyz p') (xyz p')) * m_deltaT m \<le> m_limit_val m"
            and body = "nve_step_two_particle m" and j = j and js = "m_group m"])
       (simp_all add: nve_step_two_particle_other nve_step_two_particle_velocity
          nve_limit_velocity_bound)
qed

text \<open>
  The particle at the origin with velocity (1/12, 0, 0), time step 1 and limit 1/100.
\<close>

theorem nve_limit_bounds_move_witness:
  "distinct (m_group (nve_method gyroid_unit_cell (1 / 10) 1 True (1 / 100)))
   \<and> m_limit (nve_method gyroid_unit_cell (1 / 10) 1 True (1 / 100))
   \<and> 0 \<le> m_limit_val (nve_method gyroid_unit_cell (1 / 10) 1 True (1 / 100))
   \<and> 0 \<in> set (m_group (nve_method gyroid_unit_cell (1 / 10) 1 True (1 / 100)))
   \<and> distance3
        (xyz (getPositions (nve_move (nve_method gyroid_unit_cell (1 / 10) 1 True (1 / 100))
                (one_particle (make_scalar3 0 0 0) (make_scalar3 (1 / 12) 0 0))) 0))
        (xyz (getPositions (one_particle (make_scalar3 0 0 0) (make_scalar3 (1 / 12) 0 0)) 0))
       \<le> 1 / 100
   \<and> sqrt (dot (xyz (getVelocities (nve_integrateStepTwo
                       (nve_method gyroid_unit_cell (1 / 10) 1 True (1 / 100)) 0
                       (one_particle (make_scalar3 0 0 0) (make_scalar3 (1 / 12) 0 0))) 0))
                (xyz (getVelocities (nve_integrateStepTwo
                       (nve_method gyroid_unit_cell (1 / 10) 1 True (1 / 100)) 0
                       (one_particle (make_scalar3 0 0 0) (make_scalar3 (1 / 12) 0 0))) 0)))
       * 1 \<le> 1 / 100"
  using nve_limit_bounds_move
          [of "nve_method gyroid_unit_cell (1 / 10) 1 True (1 / 100)"
              "one_particle (make_scalar3 0 0 0) (make_scalar3 (1 / 12) 0 0)" 0]
  by (simp add: nve_method_def)

subsection \<open>Converged solves of the NVE method\<close>




lemma nve_acceleration_fields [simp]:
  "getPositions (nve_acceleration m j pd) = getPositions pd"
  "getVelocities (nve_acceleration m j pd) = getVelocities pd"
  by (simp_all add: nve_acceleration_def Let_def)







subsection \<open>The cap of the iterations\<close>

lemma position_rattle_bounded:
  "1 \<le> iteration (position_rattle manifold eta dt p v a)
   \<and> iteration (position_rattle manifold eta dt p v a) \<le> 10
   \<and> (iteration (position_rattle manifold eta dt p v a) = 10
      \<or> maxNorm (residual (position_rattle manifold eta dt p v a))
                 (resid (position_rattle manifold eta dt p v a)) \<le> eta)"
proof -
  define e where "e = position_setup manifold eta dt p v a"
  have e: "ps_eta e = eta" by (simp add: e_def position_setup_def Let_def)
  have z: "(0::nat) < maxiteration" by (simp add: maxiteration_def)
  show ?thesis
    using position_loop_bounded[OF z, of e 0 "make_scalar3 (qx p) (qy p) (qz p)"]
    by (simp add: position_rattle_def e_def[symmetric] e maxiteration_def)
qed

lemma velocity_rattle_bounded:
  "1 \<le> v_iteration (velocity_rattle eta dt v a n)
   \<and> v_iteration (velocity_rattle eta dt v a n) \<le> 10
   \<and> (v_iteration (velocity_rattle eta dt v a n) = 10
      \<or> maxNorm (v_residual (velocity_rattle eta dt v a n))
                 (v_resid (velocity_rattle eta dt v a n)) * qw v \<le> eta)"
proof -
  define e where "e = \<lparr>vs_eta = eta, vs_deltaT = dt, vs_vel = v, vs_accel = a,
            vs_normal = n, vs_mass = qw v, vs_inv_mass = 1 / qw v,
            vs_inv_alpha = 1 / (- (1 / 2) * dt)\<rparr>"
  have e: "vs_eta e = eta" "vs_mass e = qw v" by (simp_all add: e_def)
  have z: "(0::nat) < maxiteration" by (simp add: maxiteration_def)
  have vr: "velocity_rattle eta dt v a n = velocity_loop e 0 0 (make_scalar3
            (qx v + (1 / 2) * dt * sx a) (qy v + (1 / 2) * dt * sy a) (qz v + (1 / 2) * dt * sz a))"
    by (simp add: velocity_rattle_def Let_def e_def)
  show ?thesis
    unfolding vr
    using velocity_loop_bounded[OF z, of e 0 "make_scalar3
            (qx v + (1 / 2) * dt * sx a) (qy v + (1 / 2) * dt * sy a) (qz v + (1 / 2) * dt * sz a)"]
    by (simp add: e maxiteration_def)
qed

text \<open>
  With a tolerance that cannot be met the loop makes its 10 passes and ends.
\<close>

lemma position_loop_cap:
  "ps_eta e < 0 \<Longrightarrow> i0 < maxiteration \<Longrightarrow> iteration (position_loop e i0 l0 x0) = maxiteration"
proof (induction e i0 l0 x0 rule: position_loop.induct)
  case (1 e i0 l0 x0)
  define st where "st = position_iteration e i0 l0 x0"
  have test: "maxNorm (residual st) (resid st) > ps_eta e"
    using maxNorm_nonneg[of "residual st" "resid st"] "1.prems"(1) by linarith
  show ?case
  proof (cases "iteration st < maxiteration")
    case True
    have "position_loop e i0 l0 x0 = position_loop e (iteration st) (lambda st) (next_pos st)"
      using True test by (subst position_loop.simps) (simp add: st_def Let_def)
    then show ?thesis
      using "1.IH"[OF st_def] True test "1.prems"(1) by simp
  next
    case False
    have "position_loop e i0 l0 x0 = st"
      using False by (subst position_loop.simps) (auto simp: st_def Let_def)
    then show ?thesis using False "1.prems"(2) by (simp add: st_def)
  qed
qed

text \<open>
  C4. The position loop and the velocity loop, which the NVE method and the Langevin
  method share, are total functions; each makes at least one and at most 10 passes, and
  ends either with its test met or after the tenth pass. Whatever the way the loop has
  ended, the functions go on with its variables: integrateStepOne of the NVE method stores
  the half-step velocity of the last pass, integrateStepTwo of both methods stores the
  velocity computed from the last multiplier mu, and IncludeRATTLEForce subtracts lambda
  times the normal from the net force with the last lambda. None of them has an error
  or a message.
\<close>

theorem rattle_loops_capped:
  "1 \<le> iteration (position_rattle manifold eta dt p v a)
   \<and> iteration (position_rattle manifold eta dt p v a) \<le> 10
   \<and> (iteration (position_rattle manifold eta dt p v a) = 10
      \<or> maxNorm (residual (position_rattle manifold eta dt p v a))
                 (resid (position_rattle manifold eta dt p v a)) \<le> eta)
   \<and> 1 \<le> v_iteration (velocity_rattle eta dt v a n)
   \<and> v_iteration (velocity_rattle eta dt v a n) \<le> 10
   \<and> (v_iteration (velocity_rattle eta dt v a n) = 10
      \<or> maxNorm (v_residual (velocity_rattle eta dt v a n))
                 (v_resid (velocity_rattle eta dt v a n)) * qw v \<le> eta)
   \<and> getVelocities (nve_step_one_particle nve j pd) j
       = make_scalar4 (sx (half_vel (rattle_position_particle nve j (nve_zero_force nve j pd))))
           (sy (half_vel (rattle_position_particle nve j (nve_zero_force nve j pd))))
           (sz (half_vel (rattle_position_particle nve j (nve_zero_force nve j pd))))
           (qw (getVelocities pd j))
   \<and> getVelocities (nve_step_two_particle nve j pd) j
       = nve_limit_velocity nve (rattle_velocity_update nve j (nve_acceleration nve j pd))
   \<and> getVelocities (fst (langevin_step_two_particle rn langevin t j (pd, transfer))) j
       = rattle_velocity_update langevin j (langevin_acceleration rn langevin t j pd)
   \<and> getNetForce (include_rattle_force_particle langevin j pd) j
       = make_scalar4
           (qx (getNetForce pd j) - lambda (rattle_position_particle langevin j pd)
                 * sx (derivative (m_manifold langevin) (xyz (getPositions pd j))))
           (qy (getNetForce pd j) - lambda (rattle_position_particle langevin j pd)
                 * sy (derivative (m_manifold langevin) (xyz (getPositions pd j))))
           (qz (getNetForce pd j) - lambda (rattle_position_particle langevin j pd)
                 * sz (derivative (m_manifold langevin) (xyz (getPositions pd j))))
           (qw (getNetForce pd j))"
proof -
  have zf: "getVelocities (nve_zero_force nve j pd) = getVelocities pd"
    by (simp add: nve_zero_force_def)
  have a: "getVelocities (nve_step_one_particle nve j pd) j
       = make_scalar4 (sx (half_vel (rattle_position_particle nve j (nve_zero_force nve j pd))))
           (sy (half_vel (rattle_position_particle nve j (nve_zero_force nve j pd))))
           (sz (half_vel (rattle_position_particle nve j (nve_zero_force nve j pd))))
           (qw (getVelocities pd j))"
    by (simp add: nve_step_one_particle_def Let_def zf)
  have b: "getVelocities (fst (langevin_step_two_particle rn langevin t j (pd, transfer))) j
       = rattle_velocity_update langevin j (langevin_acceleration rn langevin t j pd)"
    by (simp add: langevin_step_two_particle_def Let_def)
  have c: "getNetForce (include_rattle_force_particle langevin j pd) j
       = make_scalar4
           (qx (getNetForce pd j) - lambda (rattle_position_particle langevin j pd)
                 * sx (derivative (m_manifold langevin) (xyz (getPositions pd j))))
           (qy (getNetForce pd j) - lambda (rattle_position_particle langevin j pd)
                 * sy (derivative (m_manifold langevin) (xyz (getPositions pd j))))
           (qz (getNetForce pd j) - lambda (rattle_position_particle langevin j pd)
                 * sz (derivative (m_manifold langevin) (xyz (getPositions pd j))))
           (qw (getNetForce pd j))"
    by (simp add: include_rattle_force_particle_def Let_def)
  show ?thesis
    using position_rattle_bounded[of manifold eta dt p v a]
          velocity_rattle_bounded[of eta dt v a n] a b c
          nve_step_two_particle_velocity[of nve j pd]
    by blast
qed

subsection \<open>The frame of IncludeRATTLEForce\<close>

lemma virial_index_row:
  assumes "r < 6" "j < P" "6 * P \<le> 2 ^ 32"
  shows "virial_index r P j = r * P + j"
proof -
  have "r * P + j < Suc r * P" using assms(2) by simp
  also have "\<dots> \<le> 6 * P" using assms(1) by (intro mult_le_mono1) simp
  finally have "r * P + j < 2 ^ 32" using assms(3) by linarith
  then show ?thesis by (simp add: virial_index_def)
qed

lemma row_index_inj:
  fixes P :: nat
  assumes "k < P" "j < P" "r * P + k = r' * P + j"
  shows "k = j \<and> r = r'"
proof -
  have "(r * P + k) mod P = k" "(r' * P + j) mod P = j" using assms(1,2) by simp_all
  then have kj: "k = j" using assms(3) by metis
  have "(r * P + k) div P = r" "(r' * P + j) div P = r'" using assms(1,2) by simp_all
  then have "r = r'" using assms(3) by metis
  with kj show ?thesis by simp
qed

lemma include_rattle_force_particle_fields [simp]:
  "getPositions (include_rattle_force_particle m j pd) = getPositions pd"
  "getTypes (include_rattle_force_particle m j pd) = getTypes pd"
  "getVelocities (include_rattle_force_particle m j pd) = getVelocities pd"
  "getImages (include_rattle_force_particle m j pd) = getImages pd"
  "getOrientationArray (include_rattle_force_particle m j pd) = getOrientationArray pd"
  "getAngularMomentumArray (include_rattle_force_particle m j pd) = getAngularMomentumArray pd"
  "getPitch (include_rattle_force_particle m j pd) = getPitch pd"
  "getDiameters (include_rattle_force_particle m j pd) = getDiameters pd"
  "getTags (include_rattle_force_particle m j pd) = getTags pd"
  by (simp_all add: include_rattle_force_particle_def Let_def)

lemma include_rattle_force_particle_other:
  "k \<noteq> j \<Longrightarrow> getNetForce (include_rattle_force_particle m j pd) k = getNetForce pd k"
  "k \<noteq> j \<Longrightarrow> getAccelerations (include_rattle_force_particle m j pd) k = getAccelerations pd k"
  by (simp_all add: include_rattle_force_particle_def Let_def)

lemma include_rattle_force_particle_virial_other:
  assumes "i \<noteq> virial_index 0 (getPitch pd) j" "i \<noteq> virial_index 1 (getPitch pd) j"
    "i \<noteq> virial_index 2 (getPitch pd) j" "i \<noteq> virial_index 3 (getPitch pd) j"
    "i \<noteq> virial_index 4 (getPitch pd) j" "i \<noteq> virial_index 5 (getPitch pd) j"
  shows "getNetVirial (include_rattle_force_particle m j pd) i = getNetVirial pd i"
  using assms by (simp add: include_rattle_force_particle_def Let_def subtract_at_def)

lemma include_rattle_force_particle_virial_frame:
  assumes "j < getPitch pd" "k < getPitch pd" "k \<noteq> j" "6 * getPitch pd \<le> 2 ^ 32"
  shows "getNetVirial (include_rattle_force_particle m j pd) (r * getPitch pd + k)
           = getNetVirial pd (r * getPitch pd + k)"
proof -
  have "r * getPitch pd + k \<noteq> virial_index r' (getPitch pd) j" if "r' < 6" for r'
    using row_index_inj[OF assms(2,1), of r r'] assms(3)
    by (auto simp: virial_index_row[OF that assms(1,4)])
  then show ?thesis
    by (intro include_rattle_force_particle_virial_other) simp_all
qed

text \<open>What one pass writes for its own particle.\<close>

lemma include_rattle_force_particle_virial_own:
  assumes "j < getPitch pd" "6 * getPitch pd \<le> 2 ^ 32"
  shows "getNetVirial (include_rattle_force_particle m j pd) (0 * getPitch pd + j)
           = getNetVirial pd (0 * getPitch pd + j)
             - lambda (rattle_position_particle m j pd)
               * sx (derivative (m_manifold m) (xyz (getPositions pd j))) * qx (getPositions pd j)"
    and "getNetVirial (include_rattle_force_particle m j pd) (1 * getPitch pd + j)
           = getNetVirial pd (1 * getPitch pd + j)
             - 0.5 * lambda (rattle_position_particle m j pd)
               * (sy (derivative (m_manifold m) (xyz (getPositions pd j))) * qx (getPositions pd j)
                  + sx (derivative (m_manifold m) (xyz (getPositions pd j))) * qy (getPositions pd j))"
    and "getNetVirial (include_rattle_force_particle m j pd) (2 * getPitch pd + j)
           = getNetVirial pd (2 * getPitch pd + j)
             - 0.5 * lambda (rattle_position_particle m j pd)
               * (sz (derivative (m_manifold m) (xyz (getPositions pd j))) * qx (getPositions pd j)
                  + sx (derivative (m_manifold m) (xyz (getPositions pd j))) * qz (getPositions pd j))"
    and "getNetVirial (include_rattle_force_particle m j pd) (3 * getPitch pd + j)
           = getNetVirial pd (3 * getPitch pd + j)
             - lambda (rattle_position_particle m j pd)
               * sy (derivative (m_manifold m) (xyz (getPositions pd j))) * qy (getPositions pd j)"
    and "getNetVirial (include_rattle_force_particle m j pd) (4 * getPitch pd + j)
           = getNetVirial pd (4 * getPitch pd + j)
             - 0.5 * lambda (rattle_position_particle m j pd)
               * (sy (derivative (m_manifold m) (xyz (getPositions pd j))) * qz (getPositions pd j)
                  + sz (derivative (m_manifold m) (xyz (getPositions pd j))) * qy (getPositions pd j))"
    and "getNetVirial (include_rattle_force_particle m j pd) (5 * getPitch pd + j)
           = getNetVirial pd (5 * getPitch pd + j)
             - lambda (rattle_position_particle m j pd)
               * sz (derivative (m_manifold m) (xyz (getPositions pd j))) * qz (getPositions pd j)"
proof -
  have P: "0 < getPitch pd" using assms(1) by simp
  have vi: "virial_index 0 (getPitch pd) j = j"
    "virial_index 1 (getPitch pd) j = getPitch pd + j"
    "virial_index (Suc 0) (getPitch pd) j = getPitch pd + j"
    "virial_index 2 (getPitch pd) j = 2 * getPitch pd + j"
    "virial_index 3 (getPitch pd) j = 3 * getPitch pd + j"
    "virial_index 4 (getPitch pd) j = 4 * getPitch pd + j"
    "virial_index 5 (getPitch pd) j = 5 * getPitch pd + j"
    using virial_index_row[of 0 j "getPitch pd"] virial_index_row[of 1 j "getPitch pd"]
      virial_index_row[of 2 j "getPitch pd"] virial_index_row[of 3 j "getPitch pd"]
      virial_index_row[of 4 j "getPitch pd"] virial_index_row[of 5 j "getPitch pd"] assms
    by simp_all
  show "getNetVirial (include_rattle_force_particle m j pd) (0 * getPitch pd + j)
           = getNetVirial pd (0 * getPitch pd + j)
             - lambda (rattle_position_particle m j pd)
               * sx (derivative (m_manifold m) (xyz (getPositions pd j))) * qx (getPositions pd j)"
    using P by (simp add: include_rattle_force_particle_def Let_def subtract_at_def vi)
  show "getNetVirial (include_rattle_force_particle m j pd) (1 * getPitch pd + j)
           = getNetVirial pd (1 * getPitch pd + j)
             - 0.5 * lambda (rattle_position_particle m j pd)
               * (sy (derivative (m_manifold m) (xyz (getPositions pd j))) * qx (getPositions pd j)
                  + sx (derivative (m_manifold m) (xyz (getPositions pd j))) * qy (getPositions pd j))"
    using P by (simp add: include_rattle_force_particle_def Let_def subtract_at_def vi)
  show "getNetVirial (include_rattle_force_particle m j pd) (2 * getPitch pd + j)
           = getNetVirial pd (2 * getPitch pd + j)
             - 0.5 * lambda (rattle_position_particle m j pd)
               * (sz (derivative (m_manifold m) (xyz (getPositions pd j))) * qx (getPositions pd j)
                  + sx (derivative (m_manifold m) (xyz (getPositions pd j))) * qz (getPositions pd j))"
    using P by (simp add: include_rattle_force_particle_def Let_def subtract_at_def vi)
  show "getNetVirial (include_rattle_force_particle m j pd) (3 * getPitch pd + j)
           = getNetVirial pd (3 * getPitch pd + j)
             - lambda (rattle_position_particle m j pd)
               * sy (derivative (m_manifold m) (xyz (getPositions pd j))) * qy (getPositions pd j)"
    using P by (simp add: include_rattle_force_particle_def Let_def subtract_at_def vi)
  show "getNetVirial (include_rattle_force_particle m j pd) (4 * getPitch pd + j)
           = getNetVirial pd (4 * getPitch pd + j)
             - 0.5 * lambda (rattle_position_particle m j pd)
               * (sy (derivative (m_manifold m) (xyz (getPositions pd j))) * qz (getPositions pd j)
                  + sz (derivative (m_manifold m) (xyz (getPositions pd j))) * qy (getPositions pd j))"
    using P by (simp add: include_rattle_force_particle_def Let_def subtract_at_def vi)
  show "getNetVirial (include_rattle_force_particle m j pd) (5 * getPitch pd + j)
           = getNetVirial pd (5 * getPitch pd + j)
             - lambda (rattle_position_particle m j pd)
               * sz (derivative (m_manifold m) (xyz (getPositions pd j))) * qz (getPositions pd j)"
    using P by (simp add: include_rattle_force_particle_def Let_def subtract_at_def vi)
qed

lemma include_rattle_force_particle_own:
  "getNetForce (include_rattle_force_particle m j pd) j
     = (let lam = lambda (rattle_position_particle m j pd);
            n = derivative (m_manifold m) (xyz (getPositions pd j));
            f = getNetForce pd j
        in make_scalar4 (qx f - lam * sx n) (qy f - lam * sy n) (qz f - lam * sz n) (qw f))"
  "getAccelerations (include_rattle_force_particle m j pd) j
     = (let lam = lambda (rattle_position_particle m j pd);
            n = derivative (m_manifold m) (xyz (getPositions pd j));
            inv_mass = 1 / qw (getVelocities pd j);
            a = getAccelerations pd j
        in make_scalar3 (sx a - inv_mass * lam * sx n) (sy a - inv_mass * lam * sy n)
             (sz a - inv_mass * lam * sz n))"
  by (simp_all add: include_rattle_force_particle_def Let_def)

lemma IncludeRATTLEForce_arrays:
  "getPositions (IncludeRATTLEForce m t pd) = getPositions pd
   \<and> getVelocities (IncludeRATTLEForce m t pd) = getVelocities pd
   \<and> getOrientationArray (IncludeRATTLEForce m t pd) = getOrientationArray pd
   \<and> getAngularMomentumArray (IncludeRATTLEForce m t pd) = getAngularMomentumArray pd
   \<and> getImages (IncludeRATTLEForce m t pd) = getImages pd
   \<and> getPitch (IncludeRATTLEForce m t pd) = getPitch pd"
proof -
  have "True \<and> (\<lambda>pd :: ParticleData. (getPositions pd, getVelocities pd, getOrientationArray pd,
                      getAngularMomentumArray pd, getImages pd, getPitch pd))
                  (group_loop (include_rattle_force_particle m) (m_group m) pd)
              = (\<lambda>pd :: ParticleData. (getPositions pd, getVelocities pd, getOrientationArray pd,
                      getAngularMomentumArray pd, getImages pd, getPitch pd)) pd"
    by (rule group_loop_frame[where Inv = "\<lambda>pd :: ParticleData. True"]) simp_all
  then show ?thesis by (simp add: IncludeRATTLEForce_def)
qed

lemma IncludeRATTLEForce_other:
  assumes "k \<notin> set (m_group m)"
  shows "getNetForce (IncludeRATTLEForce m t pd) k = getNetForce pd k
       \<and> getAccelerations (IncludeRATTLEForce m t pd) k = getAccelerations pd k"
proof -
  have "True \<and> (\<lambda>pd :: ParticleData. (getNetForce pd k, getAccelerations pd k))
                  (group_loop (include_rattle_force_particle m) (m_group m) pd)
              = (\<lambda>pd :: ParticleData. (getNetForce pd k, getAccelerations pd k)) pd"
  proof (rule group_loop_frame[where Inv = "\<lambda>pd :: ParticleData. True"])
    fix i and pd' :: ParticleData assume "i \<in> set (m_group m)"
    then have "k \<noteq> i" using assms by auto
    then show "True \<and> (getNetForce (include_rattle_force_particle m i pd') k,
                       getAccelerations (include_rattle_force_particle m i pd') k)
                    = (getNetForce pd' k, getAccelerations pd' k)"
      by (simp add: include_rattle_force_particle_other)
  qed simp
  then show ?thesis by (simp add: IncludeRATTLEForce_def)
qed

lemma IncludeRATTLEForce_virial_other:
  assumes "k \<notin> set (m_group m)" "k < getPitch pd" "6 * getPitch pd \<le> 2 ^ 32"
    and "\<forall>j\<in>set (m_group m). j < getPitch pd"
  shows "getNetVirial (IncludeRATTLEForce m t pd) (r * getPitch pd + k)
           = getNetVirial pd (r * getPitch pd + k)"
proof -
  have "getPitch (group_loop (include_rattle_force_particle m) (m_group m) pd) = getPitch pd
        \<and> (\<lambda>pd' :: ParticleData. getNetVirial pd' (r * getPitch pd + k))
            (group_loop (include_rattle_force_particle m) (m_group m) pd)
          = (\<lambda>pd' :: ParticleData. getNetVirial pd' (r * getPitch pd + k)) pd"
  proof (rule group_loop_frame[where Inv = "\<lambda>pd' :: ParticleData. getPitch pd' = getPitch pd"])
    fix i and pd' :: ParticleData assume i: "i \<in> set (m_group m)" and P: "getPitch pd' = getPitch pd"
    have "k \<noteq> i" using i assms(1) by auto
    moreover have "i < getPitch pd'" using i assms(4) P by simp
    ultimately have "getNetVirial (include_rattle_force_particle m i pd') (r * getPitch pd' + k)
           = getNetVirial pd' (r * getPitch pd' + k)"
      using assms(2,3) P by (intro include_rattle_force_particle_virial_frame) simp_all
    then show "getPitch (include_rattle_force_particle m i pd') = getPitch pd
         \<and> getNetVirial (include_rattle_force_particle m i pd') (r * getPitch pd + k)
             = getNetVirial pd' (r * getPitch pd + k)"
      using P by simp
  qed simp
  then show ?thesis by (simp add: IncludeRATTLEForce_def)
qed

lemma IncludeRATTLEForce_own:
  assumes d: "distinct (m_group m)" and j: "j \<in> set (m_group m)"
    and P: "6 * getPitch pd \<le> 2 ^ 32" and lt: "\<forall>j\<in>set (m_group m). j < getPitch pd"
  shows "getNetForce (IncludeRATTLEForce m t pd) j
           = getNetForce (include_rattle_force_particle m j pd) j
       \<and> getAccelerations (IncludeRATTLEForce m t pd) j
           = getAccelerations (include_rattle_force_particle m j pd) j
       \<and> (\<forall>r<6. getNetVirial (IncludeRATTLEForce m t pd) (r * getPitch pd + j)
                  = getNetVirial (include_rattle_force_particle m j pd) (r * getPitch pd + j))"
proof -
  define Inv where "Inv = (\<lambda>pd' :: ParticleData. getPitch pd' = getPitch pd
                              \<and> getPositions pd' = getPositions pd
                              \<and> getVelocities pd' = getVelocities pd)"
  define proj where "proj = (\<lambda>pd' :: ParticleData. (getAccelerations pd' j, getNetForce pd' j,
                                     map (\<lambda>r. getNetVirial pd' (r * getPitch pd + j)) [0..<6]))"
  define G where "G = (\<lambda>p :: Scalar3 \<times> Scalar4 \<times> Scalar list.
     let a = fst p; f = fst (snd p); w = snd (snd p);
         lam = lambda (position_rattle (m_manifold m) (m_eta m) (m_deltaT m)
                         (getPositions pd j) (getVelocities pd j) a);
         n = derivative (m_manifold m) (xyz (getPositions pd j));
         inv_mass = 1 / qw (getVelocities pd j);
         x = getPositions pd j
     in (make_scalar3 (sx a - inv_mass * lam * sx n) (sy a - inv_mass * lam * sy n)
           (sz a - inv_mass * lam * sz n),
         make_scalar4 (qx f - lam * sx n) (qy f - lam * sy n) (qz f - lam * sz n) (qw f),
         [w ! 0 - lam * sx n * qx x,
          w ! 1 - 0.5 * lam * (sy n * qx x + sx n * qy x),
          w ! 2 - 0.5 * lam * (sz n * qx x + sx n * qz x),
          w ! 3 - lam * sy n * qy x,
          w ! 4 - 0.5 * lam * (sy n * qz x + sz n * qy x),
          w ! 5 - lam * sz n * qz x]))"
  have six: "[0..<6] = [0, 1, 2, 3, 4, 5::nat]" by (simp add: upt_rec)
  have jP: "j < getPitch pd" using j lt by simp
  have step: "proj (include_rattle_force_particle m j pd') = G (proj pd')" if "Inv pd'" for pd' :: ParticleData
  proof -
    from that have I: "getPitch pd' = getPitch pd" "getPositions pd' = getPositions pd"
      "getVelocities pd' = getVelocities pd" by (simp_all add: Inv_def)
    have jP': "j < getPitch pd'" "6 * getPitch pd' \<le> 2 ^ 32" using jP P I by simp_all
    have rp: "rattle_position_particle m j pd'
                = position_rattle (m_manifold m) (m_eta m) (m_deltaT m)
                         (getPositions pd j) (getVelocities pd j) (getAccelerations pd' j)"
      by (simp add: rattle_position_particle_def I)
    show ?thesis
      using include_rattle_force_particle_virial_own[OF jP', of m]
      by (simp add: proj_def G_def Let_def six include_rattle_force_particle_own rp I)
  qed
  have frame: "proj (include_rattle_force_particle m i pd') = proj pd'"
    if "i \<in> set (m_group m)" "i \<noteq> j" "Inv pd'" for i and pd' :: ParticleData
  proof -
    from that have I: "getPitch pd' = getPitch pd" by (simp add: Inv_def)
    have iP: "i < getPitch pd'" using that(1) lt I by simp
    have "getNetVirial (include_rattle_force_particle m i pd') (r * getPitch pd' + j)
           = getNetVirial pd' (r * getPitch pd' + j)" for r
      using iP jP P I that(2) by (intro include_rattle_force_particle_virial_frame) simp_all
    then show ?thesis
      using that(2) by (simp add: proj_def I include_rattle_force_particle_other)
  qed
  have inv: "Inv (include_rattle_force_particle m i pd')" if "Inv pd'" for i and pd' :: ParticleData
    using that by (simp add: Inv_def)
  have "proj (group_loop (include_rattle_force_particle m) (m_group m) pd) = G (proj pd)"
    using d j
    by (intro group_loop_each[where Inv = Inv and proj = proj and R = "\<lambda>p p'. p' = G p"
              and body = "include_rattle_force_particle m" and j = j and js = "m_group m"
              and pd = pd])
       (simp_all add: inv frame step, simp add: Inv_def)
  moreover have "proj (include_rattle_force_particle m j pd) = G (proj pd)"
    by (rule step) (simp add: Inv_def)
  ultimately have "proj (IncludeRATTLEForce m t pd) = proj (include_rattle_force_particle m j pd)"
    by (simp add: IncludeRATTLEForce_def)
  then have acc: "getAccelerations (IncludeRATTLEForce m t pd) j
           = getAccelerations (include_rattle_force_particle m j pd) j"
    and frc: "getNetForce (IncludeRATTLEForce m t pd) j
           = getNetForce (include_rattle_force_particle m j pd) j"
    and vir: "map (\<lambda>r. getNetVirial (IncludeRATTLEForce m t pd) (r * getPitch pd + j)) [0..<6]
            = map (\<lambda>r. getNetVirial (include_rattle_force_particle m j pd) (r * getPitch pd + j)) [0..<6]"
    by (simp_all add: proj_def)
  have "\<forall>r<6. getNetVirial (IncludeRATTLEForce m t pd) (r * getPitch pd + j)
                  = getNetVirial (include_rattle_force_particle m j pd) (r * getPitch pd + j)"
    using vir by (simp add: map_eq_conv del: upt_Suc)
  with acc frc show ?thesis by simp
qed

text \<open>
  C10. IncludeRATTLEForce leaves the positions, velocities, orientations, angular momenta
  and images of all particles as they are, and the net force and the acceleration of every
  particle outside the group. When the six rows of the net virial fit the 32-bit index
  (6 * pitch <= 2^32) and every member of the group is below the pitch, it also leaves the
  six virial entries of every particle outside the group as they are, and, for a group
  without duplicates, for each member j with the multiplier lambda of its position solve
  and the gradient n at its position x: the net force of j has lambda * n subtracted, its
  acceleration lambda * n / m, and its virial entries lambda * n_x * x_x,
  lambda * (n_y * x_x + n_x * x_y) / 2, lambda * (n_z * x_x + n_x * x_z) / 2,
  lambda * n_y * x_y, lambda * (n_y * x_z + n_z * x_y) / 2 and lambda * n_z * x_z.
\<close>

theorem IncludeRATTLEForce_frame:
  "getPositions (IncludeRATTLEForce m t pd) = getPositions pd
   \<and> getVelocities (IncludeRATTLEForce m t pd) = getVelocities pd
   \<and> getOrientationArray (IncludeRATTLEForce m t pd) = getOrientationArray pd
   \<and> getAngularMomentumArray (IncludeRATTLEForce m t pd) = getAngularMomentumArray pd
   \<and> getImages (IncludeRATTLEForce m t pd) = getImages pd
   \<and> (\<forall>k. k \<notin> set (m_group m) \<longrightarrow>
          getNetForce (IncludeRATTLEForce m t pd) k = getNetForce pd k
        \<and> getAccelerations (IncludeRATTLEForce m t pd) k = getAccelerations pd k)
   \<and> (6 * getPitch pd \<le> 2 ^ 32 \<and> (\<forall>j\<in>set (m_group m). j < getPitch pd) \<longrightarrow>
        (\<forall>k r. k \<notin> set (m_group m) \<and> k < getPitch pd \<longrightarrow>
           getNetVirial (IncludeRATTLEForce m t pd) (r * getPitch pd + k)
             = getNetVirial pd (r * getPitch pd + k))
      \<and> (distinct (m_group m) \<longrightarrow>
           (\<forall>j\<in>set (m_group m).
              let lam = lambda (rattle_position_particle m j pd);
                  n = derivative (m_manifold m) (xyz (getPositions pd j));
                  x = getPositions pd j;
                  inv_mass = 1 / qw (getVelocities pd j);
                  f = getNetForce pd j;
                  a = getAccelerations pd j;
                  P = getPitch pd;
                  w = getNetVirial pd;
                  w' = getNetVirial (IncludeRATTLEForce m t pd)
              in getNetForce (IncludeRATTLEForce m t pd) j
                   = make_scalar4 (qx f - lam * sx n) (qy f - lam * sy n) (qz f - lam * sz n) (qw f)
               \<and> getAccelerations (IncludeRATTLEForce m t pd) j
                   = make_scalar3 (sx a - inv_mass * lam * sx n) (sy a - inv_mass * lam * sy n)
                       (sz a - inv_mass * lam * sz n)
               \<and> w' (0 * P + j) = w (0 * P + j) - lam * sx n * qx x
               \<and> w' (1 * P + j) = w (1 * P + j) - 0.5 * lam * (sy n * qx x + sx n * qy x)
               \<and> w' (2 * P + j) = w (2 * P + j) - 0.5 * lam * (sz n * qx x + sx n * qz x)
               \<and> w' (3 * P + j) = w (3 * P + j) - lam * sy n * qy x
               \<and> w' (4 * P + j) = w (4 * P + j) - 0.5 * lam * (sy n * qz x + sz n * qy x)
               \<and> w' (5 * P + j) = w (5 * P + j) - lam * sz n * qz x)))"
proof -
  have own: "(let lam = lambda (rattle_position_particle m j pd);
                  n = derivative (m_manifold m) (xyz (getPositions pd j));
                  x = getPositions pd j;
                  inv_mass = 1 / qw (getVelocities pd j);
                  f = getNetForce pd j;
                  a = getAccelerations pd j;
                  P = getPitch pd;
                  w = getNetVirial pd;
                  w' = getNetVirial (IncludeRATTLEForce m t pd)
              in getNetForce (IncludeRATTLEForce m t pd) j
                   = make_scalar4 (qx f - lam * sx n) (qy f - lam * sy n) (qz f - lam * sz n) (qw f)
               \<and> getAccelerations (IncludeRATTLEForce m t pd) j
                   = make_scalar3 (sx a - inv_mass * lam * sx n) (sy a - inv_mass * lam * sy n)
                       (sz a - inv_mass * lam * sz n)
               \<and> w' (0 * P + j) = w (0 * P + j) - lam * sx n * qx x
               \<and> w' (1 * P + j) = w (1 * P + j) - 0.5 * lam * (sy n * qx x + sx n * qy x)
               \<and> w' (2 * P + j) = w (2 * P + j) - 0.5 * lam * (sz n * qx x + sx n * qz x)
               \<and> w' (3 * P + j) = w (3 * P + j) - lam * sy n * qy x
               \<and> w' (4 * P + j) = w (4 * P + j) - 0.5 * lam * (sy n * qz x + sz n * qy x)
               \<and> w' (5 * P + j) = w (5 * P + j) - lam * sz n * qz x)"
    if h: "6 * getPitch pd \<le> 2 ^ 32" "\<forall>j\<in>set (m_group m). j < getPitch pd"
       "distinct (m_group m)" "j \<in> set (m_group m)" for j
  proof -
    have jP: "j < getPitch pd" using h(2,4) by simp
    note o = IncludeRATTLEForce_own[OF h(3,4,1,2), of t]
    have v: "getNetVirial (IncludeRATTLEForce m t pd) (r * getPitch pd + j)
                  = getNetVirial (include_rattle_force_particle m j pd) (r * getPitch pd + j)"
      if "r < 6" for r using o that by blast
    show ?thesis
      unfolding Let_def
      using o v[of 0] v[of 1] v[of 2] v[of 3] v[of 4] v[of 5]
            include_rattle_force_particle_virial_own[OF jP h(1), of m]
            include_rattle_force_particle_own[of m j pd]
      by (simp add: Let_def)
  qed
  show ?thesis
    using IncludeRATTLEForce_arrays[of m t pd] IncludeRATTLEForce_other[of _ m t pd]
          IncludeRATTLEForce_virial_other[of _ m pd t] own
    by (intro conjI allI impI ballI) blast+
qed

text \<open>
  The group of particle 0 in particle data with pitch 2: particle 1 is outside the group.
\<close>

theorem IncludeRATTLEForce_frame_witness:
  "6 * getPitch ((one_particle (make_scalar3 0 0 0) (make_scalar3 (1 / 12) 0 0))\<lparr>getPitch := 2\<rparr>)
      \<le> (2::nat) ^ 32
   \<and> m_group (langevin_method gyroid_unit_cell (1 / 10) 1 [0] 1) = [0]
   \<and> 0 < getPitch ((one_particle (make_scalar3 0 0 0) (make_scalar3 (1 / 12) 0 0))\<lparr>getPitch := 2\<rparr>)
   \<and> distinct (m_group (langevin_method gyroid_unit_cell (1 / 10) 1 [0] 1))
   \<and> 1 \<notin> set (m_group (langevin_method gyroid_unit_cell (1 / 10) 1 [0] 1))
   \<and> 0 \<in> set (m_group (langevin_method gyroid_unit_cell (1 / 10) 1 [0] 1))
   \<and> getNetForce (IncludeRATTLEForce (langevin_method gyroid_unit_cell (1 / 10) 1 [0] 1) 0
         ((one_particle (make_scalar3 0 0 0) (make_scalar3 (1 / 12) 0 0))\<lparr>getPitch := 2\<rparr>)) 1
       = make_scalar4 0 0 0 0
   \<and> getNetVirial (IncludeRATTLEForce (langevin_method gyroid_unit_cell (1 / 10) 1 [0] 1) 0
         ((one_particle (make_scalar3 0 0 0) (make_scalar3 (1 / 12) 0 0))\<lparr>getPitch := 2\<rparr>)) (3 * 2 + 1)
       = 0
   \<and> getNetVirial (IncludeRATTLEForce (langevin_method gyroid_unit_cell (1 / 10) 1 [0] 1) 0
         ((one_particle (make_scalar3 0 0 0) (make_scalar3 (1 / 12) 0 0))\<lparr>getPitch := 2\<rparr>)) (3 * 2 + 0)
       = 0"
proof -
  define m where "m = langevin_method gyroid_unit_cell (1 / 10) 1 [0] 1"
  define pd where "pd = (one_particle (make_scalar3 0 0 0) (make_scalar3 (1 / 12) 0 0))\<lparr>getPitch := 2\<rparr>"
  have g: "m_group m = [0]" by (simp add: m_def langevin_method_def)
  have p: "getPitch pd = 2" "getNetForce pd 1 = make_scalar4 0 0 0 0" "getNetVirial pd = (\<lambda>i. 0)"
    "getPositions pd 0 = make_scalar4 0 0 0 0"
    by (simp_all add: pd_def one_particle_def)
  have h: "6 * getPitch pd \<le> 2 ^ 32 \<and> (\<forall>j\<in>set (m_group m). j < getPitch pd)"
    "distinct (m_group m)" "1 \<notin> set (m_group m)" "0 \<in> set (m_group m)"
    by (simp_all add: g p)
  note f = IncludeRATTLEForce_frame[of m 0 pd]
  from f h(3) have "getNetForce (IncludeRATTLEForce m 0 pd) 1 = getNetForce pd 1"
    by blast
  then have c1: "getNetForce (IncludeRATTLEForce m 0 pd) 1 = make_scalar4 0 0 0 0"
    by (simp only: p)
  from f h(1,3) have "getNetVirial (IncludeRATTLEForce m 0 pd) (3 * getPitch pd + 1)
             = getNetVirial pd (3 * getPitch pd + 1)"
    using p(1) by (metis one_less_numeral_iff semiring_norm(76))
  then have c2: "getNetVirial (IncludeRATTLEForce m 0 pd) (3 * 2 + 1) = 0"
    by (simp add: p)
  from f h(1,2,4) have "let lam = lambda (rattle_position_particle m 0 pd);
                  n = derivative (m_manifold m) (xyz (getPositions pd 0));
                  x = getPositions pd 0;
                  inv_mass = 1 / qw (getVelocities pd 0);
                  f = getNetForce pd 0;
                  a = getAccelerations pd 0;
                  P = getPitch pd;
                  w = getNetVirial pd;
                  w' = getNetVirial (IncludeRATTLEForce m 0 pd)
              in getNetForce (IncludeRATTLEForce m 0 pd) 0
                   = make_scalar4 (qx f - lam * sx n) (qy f - lam * sy n) (qz f - lam * sz n) (qw f)
               \<and> getAccelerations (IncludeRATTLEForce m 0 pd) 0
                   = make_scalar3 (sx a - inv_mass * lam * sx n) (sy a - inv_mass * lam * sy n)
                       (sz a - inv_mass * lam * sz n)
               \<and> w' (0 * P + 0) = w (0 * P + 0) - lam * sx n * qx x
               \<and> w' (1 * P + 0) = w (1 * P + 0) - 0.5 * lam * (sy n * qx x + sx n * qy x)
               \<and> w' (2 * P + 0) = w (2 * P + 0) - 0.5 * lam * (sz n * qx x + sx n * qz x)
               \<and> w' (3 * P + 0) = w (3 * P + 0) - lam * sy n * qy x
               \<and> w' (4 * P + 0) = w (4 * P + 0) - 0.5 * lam * (sy n * qz x + sz n * qy x)
               \<and> w' (5 * P + 0) = w (5 * P + 0) - lam * sz n * qz x"
    by blast
  then have c3: "getNetVirial (IncludeRATTLEForce m 0 pd) (3 * 2 + 0) = 0"
    by (simp add: Let_def p)
  show ?thesis
    unfolding m_def[symmetric] pd_def[symmetric]
    using h c1 c2 c3 g by (simp add: p)
qed

subsection \<open>The stochastic force of the Langevin method\<close>

lemma dot_self_nonneg: "0 \<le> dot n n"
  by (simp add: dot_def)

lemma projection_tangent:
  assumes "dot n n \<noteq> 0"
  shows "dot n (make_scalar3
            (sx r - (sx r * (sx n / sqrt (dot n n)) + sy r * (sy n / sqrt (dot n n))
                     + sz r * (sz n / sqrt (dot n n))) * (sx n / sqrt (dot n n)))
            (sy r - (sx r * (sx n / sqrt (dot n n)) + sy r * (sy n / sqrt (dot n n))
                     + sz r * (sz n / sqrt (dot n n))) * (sy n / sqrt (dot n n)))
            (sz r - (sx r * (sx n / sqrt (dot n n)) + sy r * (sy n / sqrt (dot n n))
                     + sz r * (sz n / sqrt (dot n n))) * (sz n / sqrt (dot n n)))) = 0"
proof -
  define s where "s = sqrt (dot n n)"
  define k where "k = 1 / s"
  have s0: "s \<noteq> 0" using assms dot_self_nonneg[of n] by (simp add: s_def)
  have ss: "s * s = dot n n" using dot_self_nonneg[of n] by (simp add: s_def)
  have ks: "k * s = 1" using s0 by (simp add: k_def)
  have div: "\<And>c. c / s = c * k" by (simp add: k_def)
  define pr where "pr = sx r * (sx n * k) + sy r * (sy n * k) + sz r * (sz n * k)"
  have pr: "pr = dot n r * k" by (simp add: pr_def dot_def algebra_simps)
  have "dot n (make_scalar3 (sx r - pr * (sx n * k)) (sy r - pr * (sy n * k))
                 (sz r - pr * (sz n * k)))
          = dot n r - pr * k * dot n n"
    by (simp add: dot_def algebra_simps)
  also have "\<dots> = dot n r - dot n r * ((k * s) * (k * s))"
    by (simp add: pr ss[symmetric] algebra_simps)
  also have "\<dots> = 0" by (simp add: ks)
  finally show ?thesis by (simp add: pr_def s_def[symmetric] div)
qed

lemma langevin_step_two_particle_other:
  "k \<noteq> j \<Longrightarrow>
     getAccelerations (fst (langevin_step_two_particle rn m t j s)) k = getAccelerations (fst s) k
     \<and> getVelocities (fst (langevin_step_two_particle rn m t j s)) k = getVelocities (fst s) k"
  by (simp add: langevin_step_two_particle_def langevin_acceleration_def Let_def)

lemma langevin_step_two_particle_fields:
  "getPositions (fst (langevin_step_two_particle rn m t j s)) = getPositions (fst s)"
  "getNetForce (fst (langevin_step_two_particle rn m t j s)) = getNetForce (fst s)"
  "getDiameters (fst (langevin_step_two_particle rn m t j s)) = getDiameters (fst s)"
  "getTypes (fst (langevin_step_two_particle rn m t j s)) = getTypes (fst s)"
  "getTags (fst (langevin_step_two_particle rn m t j s)) = getTags (fst s)"
  by (simp_all add: langevin_step_two_particle_def langevin_acceleration_def Let_def)

lemma langevin_bd_force_local:
  assumes "getPositions pd j = getPositions pd' j" "getVelocities pd j = getVelocities pd' j"
    and "getDiameters pd j = getDiameters pd' j" "getTypes pd j = getTypes pd' j"
    and "getTags pd j = getTags pd' j"
  shows "langevin_bd_force rn m t j pd = langevin_bd_force rn m t j pd'"
  by (simp add: langevin_bd_force_def langevin_random_def langevin_gamma_def langevin_rng_def
        Let_def assms)

lemma rattle_velocity_update_local:
  assumes "getPositions pd j = getPositions pd' j" "getVelocities pd j = getVelocities pd' j"
    and "getAccelerations pd j = getAccelerations pd' j"
  shows "rattle_velocity_update m j pd = rattle_velocity_update m j pd'"
  by (simp add: rattle_velocity_update_def rattle_velocity_particle_def Let_def assms)

lemma langevin_step_two_particle_own:
  "getAccelerations (fst (langevin_step_two_particle rn m t j s)) j
     = make_scalar3
         ((qx (getNetForce (fst s) j) + sx (langevin_bd_force rn m t j (fst s)))
            * (1 / qw (getVelocities (fst s) j)))
         ((qy (getNetForce (fst s) j) + sy (langevin_bd_force rn m t j (fst s)))
            * (1 / qw (getVelocities (fst s) j)))
         ((qz (getNetForce (fst s) j) + sz (langevin_bd_force rn m t j (fst s)))
            * (1 / qw (getVelocities (fst s) j)))"
  "getVelocities (fst (langevin_step_two_particle rn m t j s)) j
     = rattle_velocity_update m j (langevin_acceleration rn m t j (fst s))"
  by (simp_all add: langevin_step_two_particle_def langevin_acceleration_def Let_def)

lemma langevin_step_two_particle_local:
  assumes "getPositions (fst s) j = getPositions (fst s') j"
    and "getVelocities (fst s) j = getVelocities (fst s') j"
    and "getNetForce (fst s) j = getNetForce (fst s') j"
    and "getDiameters (fst s) j = getDiameters (fst s') j"
    and "getTypes (fst s) j = getTypes (fst s') j"
    and "getTags (fst s) j = getTags (fst s') j"
  shows "getAccelerations (fst (langevin_step_two_particle rn m t j s)) j
           = getAccelerations (fst (langevin_step_two_particle rn m t j s')) j"
    and "getVelocities (fst (langevin_step_two_particle rn m t j s)) j
           = getVelocities (fst (langevin_step_two_particle rn m t j s')) j"
proof -
  have bd: "langevin_bd_force rn m t j (fst s) = langevin_bd_force rn m t j (fst s')"
    using assms by (intro langevin_bd_force_local) simp_all
  show a: "getAccelerations (fst (langevin_step_two_particle rn m t j s)) j
           = getAccelerations (fst (langevin_step_two_particle rn m t j s')) j"
    by (simp add: langevin_step_two_particle_own(1) bd assms)
  have "rattle_velocity_update m j (langevin_acceleration rn m t j (fst s))
          = rattle_velocity_update m j (langevin_acceleration rn m t j (fst s'))"
  proof (rule rattle_velocity_update_local)
    show "getPositions (langevin_acceleration rn m t j (fst s)) j
            = getPositions (langevin_acceleration rn m t j (fst s')) j"
      using assms by (simp add: langevin_acceleration_def Let_def)
    show "getVelocities (langevin_acceleration rn m t j (fst s)) j
            = getVelocities (langevin_acceleration rn m t j (fst s')) j"
      using assms by (simp add: langevin_acceleration_def Let_def)
    show "getAccelerations (langevin_acceleration rn m t j (fst s)) j
            = getAccelerations (langevin_acceleration rn m t j (fst s')) j"
      using assms by (simp add: langevin_acceleration_def Let_def bd)
  qed
  then show "getVelocities (fst (langevin_step_two_particle rn m t j s)) j
           = getVelocities (fst (langevin_step_two_particle rn m t j s')) j"
    by (simp add: langevin_step_two_particle_own(2))
qed

text \<open>
  In a group without duplicates, what integrateStepTwo leaves in the acceleration and the
  velocity of the member j is what the pass for j computes from the entries of j before
  the step.
\<close>

lemma langevin_integrateStepTwo_member:
  assumes "distinct (m_group m)" and "j \<in> set (m_group m)"
  shows "getAccelerations (fst (langevin_integrateStepTwo rn m t pd)) j
           = getAccelerations (fst (langevin_step_two_particle rn m t j (pd, 0))) j
         \<and> getVelocities (fst (langevin_integrateStepTwo rn m t pd)) j
           = getVelocities (fst (langevin_step_two_particle rn m t j (pd, 0))) j"
proof -
  define proj :: "ParticleData \<times> Scalar \<Rightarrow> (Scalar4 \<times> Scalar4 \<times> Scalar4) \<times> (Scalar \<times> nat \<times> 32 word) \<times> Scalar3" where
    "proj = (\<lambda>s. ((getPositions (fst s) j, getVelocities (fst s) j, getNetForce (fst s) j),
                  (getDiameters (fst s) j, getTypes (fst s) j, getTags (fst s) j),
                  getAccelerations (fst s) j))"
  define R :: "(Scalar4 \<times> Scalar4 \<times> Scalar4) \<times> (Scalar \<times> nat \<times> 32 word) \<times> Scalar3
      \<Rightarrow> (Scalar4 \<times> Scalar4 \<times> Scalar4) \<times> (Scalar \<times> nat \<times> 32 word) \<times> Scalar3 \<Rightarrow> bool" where
    "R = (\<lambda>p q. fst p = fst (proj (pd, 0)) \<and> fst (snd p) = fst (snd (proj (pd, 0)))
              \<longrightarrow> snd (snd q) = getAccelerations (fst (langevin_step_two_particle rn m t j (pd, 0))) j
                \<and> fst (snd (fst q)) = getVelocities (fst (langevin_step_two_particle rn m t j (pd, 0))) j)"
  have frame: "proj (langevin_step_two_particle rn m t i s) = proj s" if "i \<noteq> j" for i s
    using langevin_step_two_particle_other[of j i rn m t s] that
    by (simp add: proj_def langevin_step_two_particle_fields)
  have step: "R (proj s) (proj (langevin_step_two_particle rn m t j s))" for s
    unfolding R_def proj_def
    using langevin_step_two_particle_local[of s j "(pd, 0)" rn m t]
    by simp
  have "R (proj (pd, 0)) (proj (group_loop (langevin_step_two_particle rn m t) (m_group m) (pd, 0)))"
    using assms
    by (intro group_loop_each[where Inv = "\<lambda>s. True" and proj = proj and R = R
            and body = "langevin_step_two_particle rn m t" and j = j and js = "m_group m"])
       (simp_all add: frame step)
  then show ?thesis
    by (simp add: R_def proj_def langevin_integrateStepTwo_def)
qed

lemma langevin_random_closed:
  "(0 < m_T m t \<longrightarrow>
      langevin_random rn m t j pd
        = (let gamma = langevin_gamma m j pd;
               n = derivative (m_manifold m) (xyz (getPositions pd j));
               u = make_scalar3 (sx n / sqrt (dot n n)) (sy n / sqrt (dot n n)) (sz n / sqrt (dot n n));
               r = uniform3 rn (RandomGenerator rn TwoStepLangevin (m_seed m) (getTags pd j) t);
               coeff = (if m_noiseless_t m then 0 else sqrt (6 * gamma * m_T m t / m_deltaT m))
           in (make_scalar3 (sx r - dot r u * sx u) (sy r - dot r u * sy u) (sz r - dot r u * sz u),
               coeff)))
   \<and> (m_T m t \<le> 0 \<longrightarrow> langevin_random rn m t j pd = (make_scalar3 0 0 0, 0))"
  by (simp add: langevin_random_def langevin_rng_def Let_def dot_def)

lemma projection_unit_tangent:
  assumes "dot n n \<noteq> 0"
  shows "dot n (make_scalar3
      (sx r - dot r (make_scalar3 (sx n / sqrt (dot n n)) (sy n / sqrt (dot n n)) (sz n / sqrt (dot n n)))
              * (sx n / sqrt (dot n n)))
      (sy r - dot r (make_scalar3 (sx n / sqrt (dot n n)) (sy n / sqrt (dot n n)) (sz n / sqrt (dot n n)))
              * (sy n / sqrt (dot n n)))
      (sz r - dot r (make_scalar3 (sx n / sqrt (dot n n)) (sy n / sqrt (dot n n)) (sz n / sqrt (dot n n)))
              * (sz n / sqrt (dot n n)))) = 0"
proof -
  have "dot r (make_scalar3 (sx n / sqrt (dot n n)) (sy n / sqrt (dot n n)) (sz n / sqrt (dot n n)))
          = sx r * (sx n / sqrt (dot n n)) + sy r * (sy n / sqrt (dot n n))
            + sz r * (sz n / sqrt (dot n n))"
    by (simp add: dot_def)
  then show ?thesis using projection_tangent[OF assms, of r] by simp
qed

text \<open>
  C6. In integrateStepTwo of the Langevin method, for every particle j of a group without
  duplicates: the friction coefficient gamma is lambda * diameter when m_use_lambda is set
  and the gamma of the type of the particle otherwise. When the temperature T is positive,
  the random vector is the vector r of three uniform numbers from the generator of the
  particle minus its component along the unit gradient u = n / |n|, so that it is
  orthogonal to the gradient n when n is not zero; the coefficient is
  sqrt (6 * gamma * T / deltaT), or 0 when the translational noise is suppressed; and the
  stochastic force is the projected vector times the coefficient minus gamma * v. When
  T <= 0 the random vector and the coefficient are 0 and the stochastic force is
  - gamma * v. In both cases the step leaves in the acceleration of the particle the sum
  of the net force and the stochastic force divided by the mass, and in its velocity the
  result of the velocity stage with that acceleration; the force, the velocity and the
  position are those before the step.
\<close>

theorem langevin_integrateStepTwo_stochastic_force:
  "distinct (m_group m) \<and> j \<in> set (m_group m) \<longrightarrow>
     (let pd' = fst (langevin_integrateStepTwo rn m t pd);
          gamma = (if m_use_lambda m then m_lambda m * getDiameters pd j
                   else m_gamma m (getTypes pd j));
          v = getVelocities pd j;
          f = getNetForce pd j;
          n = derivative (m_manifold m) (xyz (getPositions pd j));
          u = make_scalar3 (sx n / sqrt (dot n n)) (sy n / sqrt (dot n n)) (sz n / sqrt (dot n n));
          r = uniform3 rn (RandomGenerator rn TwoStepLangevin (m_seed m) (getTags pd j) t);
          coeff = (if m_noiseless_t m then 0 else sqrt (6 * gamma * m_T m t / m_deltaT m));
          rt = make_scalar3 (sx r - dot r u * sx u) (sy r - dot r u * sy u) (sz r - dot r u * sz u)
      in langevin_gamma m j pd = gamma
         \<and> (0 < m_T m t \<longrightarrow>
              (let bd = make_scalar3 (sx rt * coeff - gamma * qx v) (sy rt * coeff - gamma * qy v)
                          (sz rt * coeff - gamma * qz v);
                   accel = make_scalar3 ((qx f + sx bd) * (1 / qw v)) ((qy f + sy bd) * (1 / qw v))
                             ((qz f + sz bd) * (1 / qw v))
               in (dot n n \<noteq> 0 \<longrightarrow> dot n rt = 0)
                  \<and> langevin_random rn m t j pd = (rt, coeff)
                  \<and> langevin_bd_force rn m t j pd = bd
                  \<and> getAccelerations pd' j = accel
                  \<and> getVelocities pd' j
                      = rattle_velocity_update m j
                          (pd\<lparr>getAccelerations := (getAccelerations pd)(j := accel)\<rparr>)))
         \<and> (m_T m t \<le> 0 \<longrightarrow>
              (let bd = make_scalar3 (- gamma * qx v) (- gamma * qy v) (- gamma * qz v);
                   accel = make_scalar3 ((qx f + sx bd) * (1 / qw v)) ((qy f + sy bd) * (1 / qw v))
                             ((qz f + sz bd) * (1 / qw v))
               in langevin_random rn m t j pd = (make_scalar3 0 0 0, 0)
                  \<and> langevin_bd_force rn m t j pd = bd
                  \<and> getAccelerations pd' j = accel
                  \<and> getVelocities pd' j
                      = rattle_velocity_update m j
                          (pd\<lparr>getAccelerations := (getAccelerations pd)(j := accel)\<rparr>))))"
proof (intro impI)
  assume h: "distinct (m_group m) \<and> j \<in> set (m_group m)"
  define gamma where "gamma = (if m_use_lambda m then m_lambda m * getDiameters pd j
                   else m_gamma m (getTypes pd j))"
  define n where "n = derivative (m_manifold m) (xyz (getPositions pd j))"
  define u where "u = make_scalar3 (sx n / sqrt (dot n n)) (sy n / sqrt (dot n n)) (sz n / sqrt (dot n n))"
  define r where "r = uniform3 rn (RandomGenerator rn TwoStepLangevin (m_seed m) (getTags pd j) t)"
  define coeff where "coeff = (if m_noiseless_t m then 0 else sqrt (6 * gamma * m_T m t / m_deltaT m))"
  define rt where "rt = make_scalar3 (sx r - dot r u * sx u) (sy r - dot r u * sy u) (sz r - dot r u * sz u)"
  define bd where "bd = langevin_bd_force rn m t j pd"
  define accel where "accel = make_scalar3 ((qx (getNetForce pd j) + sx bd) * (1 / qw (getVelocities pd j)))
       ((qy (getNetForce pd j) + sy bd) * (1 / qw (getVelocities pd j)))
       ((qz (getNetForce pd j) + sz bd) * (1 / qw (getVelocities pd j)))"
  have g: "langevin_gamma m j pd = gamma"
    by (simp add: langevin_gamma_def gamma_def Let_def)
  have la: "langevin_acceleration rn m t j pd
              = pd\<lparr>getAccelerations := (getAccelerations pd)(j := accel)\<rparr>"
    by (simp add: langevin_acceleration_def Let_def accel_def bd_def)
  from langevin_integrateStepTwo_member[of m j rn t pd] h
  have a: "getAccelerations (fst (langevin_integrateStepTwo rn m t pd)) j = accel"
    and v: "getVelocities (fst (langevin_integrateStepTwo rn m t pd)) j
              = rattle_velocity_update m j (pd\<lparr>getAccelerations := (getAccelerations pd)(j := accel)\<rparr>)"
    by (simp_all add: langevin_step_two_particle_own la accel_def bd_def)
  have tan: "dot n n \<noteq> 0 \<longrightarrow> dot n rt = 0"
    unfolding rt_def u_def using projection_unit_tangent[of n r] by simp
  have pos: "langevin_random rn m t j pd = (rt, coeff)"
       "bd = make_scalar3 (sx rt * coeff - gamma * qx (getVelocities pd j))
               (sy rt * coeff - gamma * qy (getVelocities pd j))
               (sz rt * coeff - gamma * qz (getVelocities pd j))"
    if "0 < m_T m t"
  proof -
    show lr: "langevin_random rn m t j pd = (rt, coeff)"
      using langevin_random_closed[of m t rn j pd] that
      by (simp add: Let_def g rt_def u_def n_def r_def coeff_def)
    show "bd = make_scalar3 (sx rt * coeff - gamma * qx (getVelocities pd j))
               (sy rt * coeff - gamma * qy (getVelocities pd j))
               (sz rt * coeff - gamma * qz (getVelocities pd j))"
      by (simp add: bd_def langevin_bd_force_def lr g Let_def)
  qed
  have neg: "langevin_random rn m t j pd = (make_scalar3 0 0 0, 0)"
       "bd = make_scalar3 (- gamma * qx (getVelocities pd j)) (- gamma * qy (getVelocities pd j))
               (- gamma * qz (getVelocities pd j))"
    if "m_T m t \<le> 0"
  proof -
    show lr: "langevin_random rn m t j pd = (make_scalar3 0 0 0, 0)"
      using langevin_random_closed[of m t rn j pd] that by simp
    show "bd = make_scalar3 (- gamma * qx (getVelocities pd j)) (- gamma * qy (getVelocities pd j))
               (- gamma * qz (getVelocities pd j))"
      by (simp add: bd_def langevin_bd_force_def lr g Let_def)
  qed
  show "let pd' = fst (langevin_integrateStepTwo rn m t pd);
          gamma = (if m_use_lambda m then m_lambda m * getDiameters pd j
                   else m_gamma m (getTypes pd j));
          v = getVelocities pd j;
          f = getNetForce pd j;
          n = derivative (m_manifold m) (xyz (getPositions pd j));
          u = make_scalar3 (sx n / sqrt (dot n n)) (sy n / sqrt (dot n n)) (sz n / sqrt (dot n n));
          r = uniform3 rn (RandomGenerator rn TwoStepLangevin (m_seed m) (getTags pd j) t);
          coeff = (if m_noiseless_t m then 0 else sqrt (6 * gamma * m_T m t / m_deltaT m));
          rt = make_scalar3 (sx r - dot r u * sx u) (sy r - dot r u * sy u) (sz r - dot r u * sz u)
      in langevin_gamma m j pd = gamma
         \<and> (0 < m_T m t \<longrightarrow>
              (let bd = make_scalar3 (sx rt * coeff - gamma * qx v) (sy rt * coeff - gamma * qy v)
                          (sz rt * coeff - gamma * qz v);
                   accel = make_scalar3 ((qx f + sx bd) * (1 / qw v)) ((qy f + sy bd) * (1 / qw v))
                             ((qz f + sz bd) * (1 / qw v))
               in (dot n n \<noteq> 0 \<longrightarrow> dot n rt = 0)
                  \<and> langevin_random rn m t j pd = (rt, coeff)
                  \<and> langevin_bd_force rn m t j pd = bd
                  \<and> getAccelerations pd' j = accel
                  \<and> getVelocities pd' j
                      = rattle_velocity_update m j
                          (pd\<lparr>getAccelerations := (getAccelerations pd)(j := accel)\<rparr>)))
         \<and> (m_T m t \<le> 0 \<longrightarrow>
              (let bd = make_scalar3 (- gamma * qx v) (- gamma * qy v) (- gamma * qz v);
                   accel = make_scalar3 ((qx f + sx bd) * (1 / qw v)) ((qy f + sy bd) * (1 / qw v))
                             ((qz f + sz bd) * (1 / qw v))
               in langevin_random rn m t j pd = (make_scalar3 0 0 0, 0)
                  \<and> langevin_bd_force rn m t j pd = bd
                  \<and> getAccelerations pd' j = accel
                  \<and> getVelocities pd' j
                      = rattle_velocity_update m j
                          (pd\<lparr>getAccelerations := (getAccelerations pd)(j := accel)\<rparr>)))"
    unfolding Let_def gamma_def[symmetric] n_def[symmetric]
    unfolding u_def[symmetric] r_def[symmetric]
    unfolding coeff_def[symmetric]
    unfolding rt_def[symmetric]
  proof (intro conjI impI)
    show "langevin_gamma m j pd = gamma" by (rule g)
  next
    assume T: "0 < m_T m t"
    show "dot n n \<noteq> 0 \<Longrightarrow> dot n rt = 0" using tan by simp
    show "langevin_random rn m t j pd = (rt, coeff)" by (rule pos(1)[OF T])
    show "langevin_bd_force rn m t j pd
            = make_scalar3 (sx rt * coeff - gamma * qx (getVelocities pd j))
               (sy rt * coeff - gamma * qy (getVelocities pd j))
               (sz rt * coeff - gamma * qz (getVelocities pd j))"
      using pos(2)[OF T] by (simp add: bd_def)
    show "getAccelerations (fst (langevin_integrateStepTwo rn m t pd)) j
            = make_scalar3
                ((qx (getNetForce pd j)
                  + sx (make_scalar3 (sx rt * coeff - gamma * qx (getVelocities pd j))
                          (sy rt * coeff - gamma * qy (getVelocities pd j))
                          (sz rt * coeff - gamma * qz (getVelocities pd j))))
                 * (1 / qw (getVelocities pd j)))
                ((qy (getNetForce pd j)
                  + sy (make_scalar3 (sx rt * coeff - gamma * qx (getVelocities pd j))
                          (sy rt * coeff - gamma * qy (getVelocities pd j))
                          (sz rt * coeff - gamma * qz (getVelocities pd j))))
                 * (1 / qw (getVelocities pd j)))
                ((qz (getNetForce pd j)
                  + sz (make_scalar3 (sx rt * coeff - gamma * qx (getVelocities pd j))
                          (sy rt * coeff - gamma * qy (getVelocities pd j))
                          (sz rt * coeff - gamma * qz (getVelocities pd j))))
                 * (1 / qw (getVelocities pd j)))"
      unfolding pos(2)[OF T, symmetric] accel_def[symmetric] by (rule a)
    show "getVelocities (fst (langevin_integrateStepTwo rn m t pd)) j
            = rattle_velocity_update m j
                (pd\<lparr>getAccelerations := (getAccelerations pd)(j := make_scalar3
                ((qx (getNetForce pd j)
                  + sx (make_scalar3 (sx rt * coeff - gamma * qx (getVelocities pd j))
                          (sy rt * coeff - gamma * qy (getVelocities pd j))
                          (sz rt * coeff - gamma * qz (getVelocities pd j))))
                 * (1 / qw (getVelocities pd j)))
                ((qy (getNetForce pd j)
                  + sy (make_scalar3 (sx rt * coeff - gamma * qx (getVelocities pd j))
                          (sy rt * coeff - gamma * qy (getVelocities pd j))
                          (sz rt * coeff - gamma * qz (getVelocities pd j))))
                 * (1 / qw (getVelocities pd j)))
                ((qz (getNetForce pd j)
                  + sz (make_scalar3 (sx rt * coeff - gamma * qx (getVelocities pd j))
                          (sy rt * coeff - gamma * qy (getVelocities pd j))
                          (sz rt * coeff - gamma * qz (getVelocities pd j))))
                 * (1 / qw (getVelocities pd j))))\<rparr>)"
      unfolding pos(2)[OF T, symmetric] accel_def[symmetric] by (rule v)
  next
    assume T: "m_T m t \<le> 0"
    show "langevin_random rn m t j pd = (make_scalar3 0 0 0, 0)" by (rule neg(1)[OF T])
    show "langevin_bd_force rn m t j pd
            = make_scalar3 (- gamma * qx (getVelocities pd j)) (- gamma * qy (getVelocities pd j))
               (- gamma * qz (getVelocities pd j))"
      using neg(2)[OF T] by (simp add: bd_def)
    show "getAccelerations (fst (langevin_integrateStepTwo rn m t pd)) j
            = make_scalar3
                ((qx (getNetForce pd j)
                  + sx (make_scalar3 (- gamma * qx (getVelocities pd j))
                          (- gamma * qy (getVelocities pd j)) (- gamma * qz (getVelocities pd j))))
                 * (1 / qw (getVelocities pd j)))
                ((qy (getNetForce pd j)
                  + sy (make_scalar3 (- gamma * qx (getVelocities pd j))
                          (- gamma * qy (getVelocities pd j)) (- gamma * qz (getVelocities pd j))))
                 * (1 / qw (getVelocities pd j)))
                ((qz (getNetForce pd j)
                  + sz (make_scalar3 (- gamma * qx (getVelocities pd j))
                          (- gamma * qy (getVelocities pd j)) (- gamma * qz (getVelocities pd j))))
                 * (1 / qw (getVelocities pd j)))"
      unfolding neg(2)[OF T, symmetric] accel_def[symmetric] by (rule a)
    show "getVelocities (fst (langevin_integrateStepTwo rn m t pd)) j
            = rattle_velocity_update m j
                (pd\<lparr>getAccelerations := (getAccelerations pd)(j := make_scalar3
                ((qx (getNetForce pd j)
                  + sx (make_scalar3 (- gamma * qx (getVelocities pd j))
                          (- gamma * qy (getVelocities pd j)) (- gamma * qz (getVelocities pd j))))
                 * (1 / qw (getVelocities pd j)))
                ((qy (getNetForce pd j)
                  + sy (make_scalar3 (- gamma * qx (getVelocities pd j))
                          (- gamma * qy (getVelocities pd j)) (- gamma * qz (getVelocities pd j))))
                 * (1 / qw (getVelocities pd j)))
                ((qz (getNetForce pd j)
                  + sz (make_scalar3 (- gamma * qx (getVelocities pd j))
                          (- gamma * qy (getVelocities pd j)) (- gamma * qz (getVelocities pd j))))
                 * (1 / qw (getVelocities pd j))))\<rparr>)"
      unfolding neg(2)[OF T, symmetric] accel_def[symmetric] by (rule v)
  qed
qed

lemma langevin_random_gyroid_origin:
  "langevin_random alternating_random_numbers
     (langevin_method gyroid_unit_cell (1 / 10) 1 [0, 1] 1) 0 1
     (one_particle (make_scalar3 0 0 0) (make_scalar3 (1 / 12) 0 0))
   = (make_scalar3 (- (2 / 3)) (4 / 3) (- (2 / 3)), sqrt 6)"
  by (simp add: langevin_random_def langevin_rng_def langevin_gamma_def langevin_method_def
        one_particle_def alternating_random_numbers_def uniform3_def Let_def xyz_def gyroid_origin
        dot_def)

text \<open>
  On the gyroid, the second particle of the group of the particles 0 and 1, at the origin
  with the velocity (1/12, 0, 0), mass 1 and no force. With the temperature 1 the uniform
  numbers are (-1, 1, -1), the projected vector is (-2/3, 4/3, -2/3), orthogonal to the
  gradient (2 pi, 2 pi, 2 pi), and the coefficient is sqrt 6; with the temperature 0 the
  acceleration is - gamma * v = (-1/12, 0, 0).
\<close>

theorem langevin_integrateStepTwo_stochastic_force_witness:
  "distinct (m_group (langevin_method gyroid_unit_cell (1 / 10) 1 [0, 1] 1))
   \<and> 1 \<in> set (m_group (langevin_method gyroid_unit_cell (1 / 10) 1 [0, 1] 1))
   \<and> 0 < m_T (langevin_method gyroid_unit_cell (1 / 10) 1 [0, 1] 1) 0
   \<and> langevin_random alternating_random_numbers
        (langevin_method gyroid_unit_cell (1 / 10) 1 [0, 1] 1) 0 1
        (one_particle (make_scalar3 0 0 0) (make_scalar3 (1 / 12) 0 0))
       = (make_scalar3 (- (2 / 3)) (4 / 3) (- (2 / 3)), sqrt 6)
   \<and> dot (derivative gyroid_unit_cell (make_scalar3 0 0 0))
         (derivative gyroid_unit_cell (make_scalar3 0 0 0)) \<noteq> 0
   \<and> dot (derivative gyroid_unit_cell (make_scalar3 0 0 0))
         (fst (langevin_random alternating_random_numbers
                 (langevin_method gyroid_unit_cell (1 / 10) 1 [0, 1] 1) 0 1
                 (one_particle (make_scalar3 0 0 0) (make_scalar3 (1 / 12) 0 0)))) = 0
   \<and> getAccelerations
        (fst (langevin_integrateStepTwo alternating_random_numbers
                (langevin_method gyroid_unit_cell (1 / 10) 1 [0, 1] 1) 0
                (one_particle (make_scalar3 0 0 0) (make_scalar3 (1 / 12) 0 0)))) 1
       = make_scalar3 (- (2 / 3) * sqrt 6 - 1 / 12) (4 / 3 * sqrt 6) (- (2 / 3) * sqrt 6)
   \<and> getVelocities
        (fst (langevin_integrateStepTwo alternating_random_numbers
                (langevin_method gyroid_unit_cell (1 / 10) 1 [0, 1] 1) 0
                (one_particle (make_scalar3 0 0 0) (make_scalar3 (1 / 12) 0 0)))) 1
       = rattle_velocity_update (langevin_method gyroid_unit_cell (1 / 10) 1 [0, 1] 1) 1
           ((one_particle (make_scalar3 0 0 0) (make_scalar3 (1 / 12) 0 0))
              \<lparr>getAccelerations :=
                 (getAccelerations (one_particle (make_scalar3 0 0 0) (make_scalar3 (1 / 12) 0 0)))
                   (1 := make_scalar3 (- (2 / 3) * sqrt 6 - 1 / 12) (4 / 3 * sqrt 6)
                           (- (2 / 3) * sqrt 6))\<rparr>)
   \<and> distinct (m_group (langevin_method gyroid_unit_cell (1 / 10) 1 [0, 1] 0))
   \<and> 1 \<in> set (m_group (langevin_method gyroid_unit_cell (1 / 10) 1 [0, 1] 0))
   \<and> m_T (langevin_method gyroid_unit_cell (1 / 10) 1 [0, 1] 0) 0 \<le> 0
   \<and> getAccelerations
        (fst (langevin_integrateStepTwo alternating_random_numbers
                (langevin_method gyroid_unit_cell (1 / 10) 1 [0, 1] 0) 0
                (one_particle (make_scalar3 0 0 0) (make_scalar3 (1 / 12) 0 0)))) 1
       = make_scalar3 (- (1 / 12)) 0 0"
proof -
  define m1 where "m1 = langevin_method gyroid_unit_cell (1 / 10) 1 [0, 1] 1"
  define m0 where "m0 = langevin_method gyroid_unit_cell (1 / 10) 1 [0, 1] 0"
  define pd where "pd = one_particle (make_scalar3 0 0 0) (make_scalar3 (1 / 12) 0 0)"
  define j :: nat where "j = 1"
  have h1: "distinct (m_group m1) \<and> j \<in> set (m_group m1)" and T1: "0 < m_T m1 0"
    and g1: "\<not> m_use_lambda m1" "m_gamma m1 (getTypes pd j) = 1"
    by (simp_all add: m1_def j_def langevin_method_def)
  have h0: "distinct (m_group m0) \<and> j \<in> set (m_group m0)" and T0: "m_T m0 0 \<le> 0"
    and g0: "\<not> m_use_lambda m0" "m_gamma m0 (getTypes pd j) = 1"
    by (simp_all add: m0_def j_def langevin_method_def)
  have p: "getVelocities pd j = make_scalar4 (1 / 12) 0 0 1" "getNetForce pd j = make_scalar4 0 0 0 0"
    by (simp_all add: pd_def one_particle_def)
  have lr: "langevin_random alternating_random_numbers m1 0 j pd
              = (make_scalar3 (- (2 / 3)) (4 / 3) (- (2 / 3)), sqrt 6)"
    unfolding m1_def pd_def j_def by (rule langevin_random_gyroid_origin)
  have man: "m_manifold m1 = gyroid_unit_cell" "xyz (getPositions pd j) = make_scalar3 0 0 0"
    by (simp_all add: m1_def langevin_method_def pd_def one_particle_def xyz_def)
  have nn: "dot (derivative gyroid_unit_cell (make_scalar3 0 0 0))
                (derivative gyroid_unit_cell (make_scalar3 0 0 0)) \<noteq> 0"
    by (simp add: gyroid_origin dot_def)
  from langevin_integrateStepTwo_stochastic_force[of m1 j alternating_random_numbers 0 pd] h1 T1 nn
  have t1: "dot (derivative gyroid_unit_cell (make_scalar3 0 0 0))
                (fst (langevin_random alternating_random_numbers m1 0 j pd)) = 0"
    unfolding Let_def by (simp add: man)
  define bd1 where "bd1 = langevin_bd_force alternating_random_numbers m1 0 j pd"
  define bd0 where "bd0 = langevin_bd_force alternating_random_numbers m0 0 j pd"
  from langevin_integrateStepTwo_stochastic_force[of m1 j alternating_random_numbers 0 pd] h1 T1
  have c1: "getAccelerations (fst (langevin_integrateStepTwo alternating_random_numbers m1 0 pd)) j
       = make_scalar3 ((qx (getNetForce pd j) + sx bd1) * (1 / qw (getVelocities pd j)))
           ((qy (getNetForce pd j) + sy bd1) * (1 / qw (getVelocities pd j)))
           ((qz (getNetForce pd j) + sz bd1) * (1 / qw (getVelocities pd j)))
     \<and> getVelocities (fst (langevin_integrateStepTwo alternating_random_numbers m1 0 pd)) j
       = rattle_velocity_update m1 j
           (pd\<lparr>getAccelerations := (getAccelerations pd)(j := make_scalar3
              ((qx (getNetForce pd j) + sx bd1) * (1 / qw (getVelocities pd j)))
              ((qy (getNetForce pd j) + sy bd1) * (1 / qw (getVelocities pd j)))
              ((qz (getNetForce pd j) + sz bd1) * (1 / qw (getVelocities pd j))))\<rparr>)"
    unfolding Let_def bd1_def by simp
  have b1: "bd1 = make_scalar3 (- (2 / 3) * sqrt 6 - 1 / 12) (4 / 3 * sqrt 6) (- (2 / 3) * sqrt 6)"
    unfolding bd1_def langevin_bd_force_def lr Let_def
    by (simp add: langevin_gamma_def g1 p)
  have a1: "getAccelerations (fst (langevin_integrateStepTwo alternating_random_numbers m1 0 pd)) j
              = make_scalar3 (- (2 / 3) * sqrt 6 - 1 / 12) (4 / 3 * sqrt 6) (- (2 / 3) * sqrt 6)"
    using c1 unfolding b1 p by simp
  have v1: "getVelocities (fst (langevin_integrateStepTwo alternating_random_numbers m1 0 pd)) j
       = rattle_velocity_update m1 j
           (pd\<lparr>getAccelerations := (getAccelerations pd)
              (j := make_scalar3 (- (2 / 3) * sqrt 6 - 1 / 12) (4 / 3 * sqrt 6) (- (2 / 3) * sqrt 6))\<rparr>)"
    using c1 unfolding b1 p by simp
  from langevin_integrateStepTwo_stochastic_force[of m0 j alternating_random_numbers 0 pd] h0 T0
  have c0: "getAccelerations (fst (langevin_integrateStepTwo alternating_random_numbers m0 0 pd)) j
       = make_scalar3 ((qx (getNetForce pd j) + sx bd0) * (1 / qw (getVelocities pd j)))
           ((qy (getNetForce pd j) + sy bd0) * (1 / qw (getVelocities pd j)))
           ((qz (getNetForce pd j) + sz bd0) * (1 / qw (getVelocities pd j)))
     \<and> bd0 = make_scalar3 (- 1 * qx (getVelocities pd j)) (- 1 * qy (getVelocities pd j))
                (- 1 * qz (getVelocities pd j))"
    unfolding Let_def bd0_def by (simp add: g0)
  then have a0: "getAccelerations (fst (langevin_integrateStepTwo alternating_random_numbers m0 0 pd)) j
       = make_scalar3 (- (1 / 12)) 0 0"
    unfolding p by simp
  show ?thesis
    unfolding m1_def[symmetric] m0_def[symmetric] pd_def[symmetric]
    unfolding j_def[symmetric]
    using h1 T1 lr nn t1 a1 v1 h0 T0 a0 by blast
qed

subsection \<open>Seeding of the random numbers\<close>




end
